theory Spec2Isabelle
  imports Complex_Main
begin

section \<open>Common Python notions\<close>

text \<open>
  The two scripts are Python. The exceptions that the modelled fragments can raise are
  values of \<open>pyerror\<close>; a computation that can raise returns \<open>pyerror + 'a\<close>.
\<close>

datatype pyerror =
    UnboundLocalError string
  | NameError string
  | TypeError
  | ValueError
  | OverflowError
  | Exception string
  | BaseException string
  | IndexError
  | KeyError string
  | OSError string
  | SystemExit

text \<open>A name of the module is unbound until a statement binds it.\<close>

datatype 'a binding = Unbound | Bound 'a

section \<open>updatelandsat.py: the search windows of scenesearch\<close>

text \<open>
  \<open>datetime.datetime.strptime(s, '%Y-%m-%d')\<close> yields a midnight; two midnights compare as
  their proleptic Gregorian ordinals (\<open>datetime.toordinal()\<close>) do, and
  \<open>+ datetime.timedelta(days = n)\<close> adds \<open>n\<close> to the ordinal. A date is therefore its
  ordinal. \<open>ymd2ord\<close> is the ordinal of a calendar date as the datetime module computes it.
  An addition that leaves the representable range (after 9999-12-31) raises OverflowError.
\<close>

definition is_leap :: "int \<Rightarrow> bool" where
  "is_leap y = (y mod 4 = 0 \<and> (y mod 100 \<noteq> 0 \<or> y mod 400 = 0))"

definition days_before_year :: "int \<Rightarrow> int" where
  "days_before_year year =
     (let y = year - 1 in y * 365 + y div 4 - y div 100 + y div 400)"

definition days_in_month :: "int \<Rightarrow> int \<Rightarrow> int" where
  "days_in_month year month =
     (if month = 2 then (if is_leap year then 29 else 28)
      else if month \<in> {4, 6, 9, 11} then 30 else 31)"

definition days_before_month :: "int \<Rightarrow> int \<Rightarrow> int" where
  "days_before_month year month =
     sum_list (map (days_in_month year) [1 .. month - 1])"

definition ymd2ord :: "int \<times> int \<times> int \<Rightarrow> int" where
  "ymd2ord d = (case d of (year, month, day) \<Rightarrow>
     days_before_year year + days_before_month year month + day)"

definition MAXORDINAL :: int where
  "MAXORDINAL = 3652059"

datatype datasetName = LANDSAT_8_C1 | LANDSAT_ETM_C1 | LANDSAT_TM_C1

text \<open>The dictionary \<open>datasetNames\<close> of scenesearch; its keys are iterated in insertion order.\<close>

fun datasetNames :: "datasetName \<Rightarrow> int \<times> int \<times> int" where
  "datasetNames LANDSAT_8_C1 = (2013, 2, 11)"
| "datasetNames LANDSAT_ETM_C1 = (1999, 4, 15)"
| "datasetNames LANDSAT_TM_C1 = (1982, 7, 16)"

definition datasetNames_keys :: "datasetName list" where
  "datasetNames_keys = [LANDSAT_8_C1, LANDSAT_ETM_C1, LANDSAT_TM_C1]"

text \<open>
  The \<open>while datetuple < enddatetuple\<close> loop. Each iteration issues one search with the
  temporal filter \<open>(datetuple, edatetuple)\<close>; the result is the list of windows issued and
  the exception that ended the loop, if any.
\<close>

function window_loop :: "int \<Rightarrow> int \<Rightarrow> (int \<times> int) list \<times> pyerror option" where
  "window_loop datetuple enddatetuple =
     (if datetuple < enddatetuple then
        (if datetuple + 365 > MAXORDINAL then ([], Some OverflowError)
         else
           (let edatetuple = datetuple + 365;
                edatetuple = (if edatetuple > enddatetuple then enddatetuple else edatetuple)
            in if edatetuple + 1 > MAXORDINAL
               then ([(datetuple, edatetuple)], Some OverflowError)
               else (case window_loop (edatetuple + 1) enddatetuple of
                       (ws, r) \<Rightarrow> ((datetuple, edatetuple) # ws, r))))
      else ([], None))"
  by pat_completeness auto
termination
  by (relation "measure (\<lambda>(d, e). nat (e - d))") (auto simp: Let_def split: if_splits)

text \<open>
  The head of the loop over the collections: the choice of the start date, the clamp to the
  sensor's launch date, and for Landsat TM the clamp of the end date to the end of the
  Landsat 5 mission. \<open>lastmodifiedDate\<close> is None or a date; \<open>startdate\<close> and \<open>enddate\<close> are
  \<open>args.startdate\<close> and \<open>args.enddate\<close>.
\<close>

definition dataset_windows ::
  "int \<Rightarrow> int \<Rightarrow> int option \<Rightarrow> 'a list \<Rightarrow> 'a list \<Rightarrow> datasetName
     \<Rightarrow> (int \<times> int) list \<times> pyerror option" where
  "dataset_windows startdate enddate lastmodifiedDate updatemissing badgeom datasetName =
     (let startdate =
            (case lastmodifiedDate of
               Some lm \<Rightarrow>
                 if \<not> (length updatemissing > 0 \<or> length badgeom > 0) then lm else startdate
             | None \<Rightarrow> startdate);
          datetuple = startdate;
          sensorstarttuple = ymd2ord (datasetNames datasetName);
          datetuple = (if datetuple < sensorstarttuple then sensorstarttuple else datetuple);
          enddatetuple = enddate;
          enddatetuple =
            (if datasetName = LANDSAT_TM_C1 then
               (let l5enddatetuple = ymd2ord (2013, 6, 5)
                in if l5enddatetuple < enddatetuple then l5enddatetuple else enddatetuple)
             else enddatetuple)
      in window_loop datetuple enddatetuple)"

text \<open>
  The loop over the collections: the windows of all collections in the order issued, each
  with its collection; an exception in one collection ends the whole search.
\<close>

fun scenesearch_windows ::
  "int \<Rightarrow> int \<Rightarrow> int option \<Rightarrow> 'a list \<Rightarrow> 'a list \<Rightarrow> datasetName list
     \<Rightarrow> (datasetName \<times> int \<times> int) list \<times> pyerror option" where
  "scenesearch_windows startdate enddate lm um bg [] = ([], None)"
| "scenesearch_windows startdate enddate lm um bg (ds # rest) =
     (case dataset_windows startdate enddate lm um bg ds of
        (ws, Some e) \<Rightarrow> (map (Pair ds) ws, Some e)
      | (ws, None) \<Rightarrow>
          (case scenesearch_windows startdate enddate lm um bg rest of
             (ws', r) \<Rightarrow> (map (Pair ds) ws @ ws', r)))"

section \<open>updatelandsat.py: the metadata requests of scenesearch\<close>

text \<open>
  Python's slice \<open>xs[a:b]\<close>: a negative bound counts from the end, and both bounds are
  clamped to the sequence.
\<close>

definition py_slice :: "'a list \<Rightarrow> int \<Rightarrow> int \<Rightarrow> 'a list" where
  "py_slice xs a b =
     (let n = int (length xs);
          lo = (if a < 0 then max (n + a) 0 else min a n);
          hi = (if b < 0 then max (n + b) 0 else min b n)
      in take (nat (hi - lo)) (drop (nat lo) xs))"

text \<open>
  The loop over the search results of one window. Of each result only \<open>entityId\<close> decides
  whether the scene enters \<open>querylist\<close>, so a result is its \<open>entityId\<close> here.
\<close>

fun build_querylist ::
  "string list \<Rightarrow> string list \<Rightarrow> string list \<Rightarrow> string list \<Rightarrow> string list \<Rightarrow> string list" where
  "build_querylist pathrowstrs scenelist updatemissing badgeom [] = []"
| "build_querylist pathrowstrs scenelist updatemissing badgeom (sceneID # results) =
     (if py_slice sceneID 3 9 \<in> set pathrowstrs \<and>
         (\<not> sceneID \<in> set scenelist \<or> sceneID \<in> set updatemissing \<or> sceneID \<in> set badgeom)
      then sceneID # build_querylist pathrowstrs scenelist updatemissing badgeom results
      else build_querylist pathrowstrs scenelist updatemissing badgeom results)"

text \<open>
  \<open>math.ceil(len(querylist) / 100)\<close>, exact for every length a search can return
  (\<open>maxResults\<close> is at most 50000).
\<close>

definition iterations_of :: "nat \<Rightarrow> nat" where
  "iterations_of n = (n + 99) div 100"

text \<open>
  One pass of \<open>for iteration in range(iterations)\<close>: the bounds \<open>startval\<close> and \<open>endval\<close>,
  and the scene identifiers \<open>querylist[startval: endval]\<close> joined into \<open>querystr\<close>.
\<close>

definition block_bounds :: "nat \<Rightarrow> nat \<Rightarrow> int \<times> int" where
  "block_bounds len iteration =
     (let startval = int iteration * 100;
          endval = (if int iteration * 100 > int len then int len - startval - 1
                    else startval + 99)
      in (startval, endval))"

definition query_block :: "string list \<Rightarrow> nat \<Rightarrow> string list" where
  "query_block querylist iteration =
     (case block_bounds (length querylist) iteration of
        (startval, endval) \<Rightarrow> py_slice querylist startval endval)"

definition querystr_of :: "string list \<Rightarrow> string" where
  "querystr_of block = drop 1 (concat (map (\<lambda>sceneID. CHR '','' # sceneID) block))"

text \<open>
  The metadata requests sent for one query list, each as the list of scene identifiers it
  asks for (\<open>entityIds\<close> is \<open>querystr_of\<close> of that list).
\<close>

definition metadata_requests :: "string list \<Rightarrow> string list list" where
  "metadata_requests querylist =
     (if length querylist > 0
      then map (query_block querylist) [0 ..< iterations_of (length querylist)]
      else [])"

text \<open>
  A search result of a hundred Landsat 8 scenes of path 206, row 023, acquired on the days
  100 to 199 of 2013.
\<close>

definition example_results :: "string list" where
  "example_results =
     map (\<lambda>d. ''LC82060232013'' @ [''0123456789'' ! (d div 100), ''0123456789'' ! (d div 10 mod 10),
                                    ''0123456789'' ! (d mod 10)] @ ''LGN00'')
       [100 ..< 200]"

section \<open>updatelandsat.py: the download loops of dlthumb and dlxmls\<close>

text \<open>
  What one download attempt can do: fetch the whole file, fetch a file whose size differs
  from the length the server announced, raise URLError, or raise another exception. The
  environment \<open>env\<close> of a loop gives the outcome of the attempt with a given number, counted
  from 0.
\<close>

datatype attempt = Complete | Incomplete | Raises_URLError | Raises_other

text \<open>
  The variables of a download loop. \<open>attempts\<close> counts the passes through the \<open>try\<close> block;
  \<open>logged\<close> holds the messages given to \<open>ieo.logerror\<close>, in order.
\<close>

record dl =
  tries :: nat
  downloaded :: bool
  attempts :: nat
  logged :: "string list"
  errorsfound :: bool

definition dl_init :: "bool \<Rightarrow> dl" where
  "dl_init ef = \<lparr>tries = 1, downloaded = False, attempts = 0, logged = [], errorsfound = ef\<rparr>"

text \<open>The body of the \<open>while\<close> loop of dlthumb.\<close>

definition dlthumb_attempt :: "attempt \<Rightarrow> dl \<Rightarrow> pyerror + dl" where
  "dlthumb_attempt a s =
     (let s = s\<lparr>attempts := attempts s + 1\<rparr>
      in case a of
           Complete \<Rightarrow> Inr (s\<lparr>downloaded := True\<rparr>)
         | Incomplete \<Rightarrow> Inr (s\<lparr>tries := tries s + 1\<rparr>)
         | Raises_URLError \<Rightarrow> Inr (s\<lparr>logged := logged s @ [''e.reason''], errorsfound := True\<rparr>)
         | Raises_other \<Rightarrow> Inl (Exception ''download''))"

text \<open>
  \<open>while not downloaded and tries < 6\<close> in dlthumb. The loop need not end: its value is None
  when it runs forever.
\<close>

partial_function (option) dlthumb_loop :: "(nat \<Rightarrow> attempt) \<Rightarrow> dl \<Rightarrow> (pyerror + dl) option" where
  "dlthumb_loop env s =
     (if \<not> downloaded s \<and> tries s < 6 then
        (case dlthumb_attempt (env (attempts s)) s of
           Inl e \<Rightarrow> Some (Inl e)
         | Inr s' \<Rightarrow> dlthumb_loop env s')
      else Some (Inr s))"

text \<open>dlthumb: the loop, then the report; the result is the returned value and the variables.\<close>

definition dlthumb :: "(nat \<Rightarrow> attempt) \<Rightarrow> bool \<Rightarrow> (pyerror + string option \<times> dl) option" where
  "dlthumb env ef =
     (case dlthumb_loop env (dl_init ef) of
        None \<Rightarrow> None
      | Some (Inl e) \<Rightarrow> Some (Inl e)
      | Some (Inr s) \<Rightarrow>
          if tries s = 6
          then Some (Inr (None, s\<lparr>logged := logged s @ [''Download error.''], errorsfound := True\<rparr>))
          else Some (Inr (Some ''Success!'', s)))"

text \<open>
  The body of the \<open>while\<close> loop of dlxmls: \<open>urlretrieve\<close> either returns, raises URLError, or
  raises something else; the size of the file is not looked at.
\<close>

definition dlxmls_attempt :: "attempt \<Rightarrow> dl \<Rightarrow> pyerror + dl" where
  "dlxmls_attempt a s =
     (let s = s\<lparr>attempts := attempts s + 1\<rparr>
      in case a of
           Complete \<Rightarrow> Inr (s\<lparr>downloaded := True\<rparr>)
         | Incomplete \<Rightarrow> Inr (s\<lparr>downloaded := True\<rparr>)
         | Raises_URLError \<Rightarrow>
             Inr (s\<lparr>logged := logged s @ [''e.reason''], errorsfound := True, tries := tries s + 1\<rparr>)
         | Raises_other \<Rightarrow> Inl (Exception ''download''))"

function dlxmls_loop :: "(nat \<Rightarrow> attempt) \<Rightarrow> dl \<Rightarrow> pyerror + dl" where
  "dlxmls_loop env s =
     (if \<not> downloaded s \<and> tries s < 6 then
        (case dlxmls_attempt (env (attempts s)) s of
           Inl e \<Rightarrow> Inl e
         | Inr s' \<Rightarrow> dlxmls_loop env s')
      else Inr s)"
  by pat_completeness auto
termination
  by (relation "measure (\<lambda>(env, s). (if downloaded s then 0 else 1) + (6 - tries s))")
    (auto simp: dlxmls_attempt_def Let_def split: attempt.splits)

declare dlxmls_loop.simps [simp del]

text \<open>The download of one item of the \<open>for x, p in zip(xmls, pathrows)\<close> loop of dlxmls.\<close>

definition dlxmls_item :: "(nat \<Rightarrow> attempt) \<Rightarrow> bool \<Rightarrow> pyerror + dl" where
  "dlxmls_item env ef =
     (case dlxmls_loop env (dl_init ef) of
        Inl e \<Rightarrow> Inl e
      | Inr s \<Rightarrow>
          if tries s = 6
          then Inr (s\<lparr>logged := logged s @ [''Download error.''], errorsfound := True\<rparr>)
          else Inr s)"

text \<open>
  The loop over the items. Before the download, an XML file that is already there is moved
  to a backup whose name is made with \<open>today.strftime\<close>; \<open>today\<close> is a name of the module
  that is bound only when \<open>--enddate\<close> is not given. The move itself is taken to succeed.
  \<open>there\<close> says whether the XML file of an item exists, and \<open>env\<close> gives the attempts of an
  item.
\<close>

fun dlxmls_items ::
  "(string \<Rightarrow> bool) \<Rightarrow> unit binding \<Rightarrow> (string \<Rightarrow> nat \<Rightarrow> attempt) \<Rightarrow> string list \<Rightarrow> bool
     \<Rightarrow> pyerror + dl list" where
  "dlxmls_items there today env [] ef = Inr []"
| "dlxmls_items there today env (x # xs) ef =
     (if there x \<and> today = Unbound then Inl (NameError ''today'')
      else
        (case dlxmls_item (env x) ef of
           Inl e \<Rightarrow> Inl e
         | Inr s \<Rightarrow>
             (case dlxmls_items there today env xs (errorsfound s) of
                Inl e \<Rightarrow> Inl e
              | Inr ss \<Rightarrow> Inr (s # ss))))"

text \<open>
  dlxmls. \<open>pathrows\<close> is a name of the module; the script declares it \<open>global\<close> and never
  assigns it, so that \<open>zip(xmls, pathrows)\<close> raises NameError unless something else has
  bound it. When the loop ends, its \<open>else\<close> branch returns \<open>'Success!'\<close>.
\<close>

definition dlxmls ::
  "'p list binding \<Rightarrow> (string \<Rightarrow> bool) \<Rightarrow> unit binding \<Rightarrow> (string \<Rightarrow> nat \<Rightarrow> attempt) \<Rightarrow> string list
     \<Rightarrow> bool \<Rightarrow> pyerror + string \<times> dl list" where
  "dlxmls pathrows there today env xmls ef =
     (case pathrows of
        Unbound \<Rightarrow> Inl (NameError ''pathrows'')
      | Bound prs \<Rightarrow>
          (case dlxmls_items there today env (map fst (zip xmls prs)) ef of
             Inl e \<Rightarrow> Inl e
           | Inr ss \<Rightarrow> Inr (''Success!'', ss)))"

section \<open>updatelandsat.py: the ring of a scene's footprint\<close>

text \<open>
  Sequencing of computations that can raise, and indexing \<open>xs[i]\<close> with a non-negative
  index, which raises IndexError past the end.
\<close>

definition ebind :: "pyerror + 'a \<Rightarrow> ('a \<Rightarrow> pyerror + 'b) \<Rightarrow> pyerror + 'b" where
  "ebind m f = (case m of Inl e \<Rightarrow> Inl e | Inr x \<Rightarrow> f x)"

definition item :: "'a list \<Rightarrow> nat \<Rightarrow> pyerror + 'a" where
  "item xs i = (if i < length xs then Inr (xs ! i) else Inl IndexError)"

text \<open>
  \<open>coords\<close> is \<open>item['spatialFootprint']['coordinates'][0]\<close> of the JSON answer: a list of
  coordinates, each a list of numbers (longitude, latitude). The numbers are compared
  with \<open>==\<close> only and are reals here. \<open>ring.AddPoint(x, y)\<close> appends a point to the ring.
\<close>

type_synonym coord = "real list"

fun add_points :: "coord list \<Rightarrow> (real \<times> real) list \<Rightarrow> pyerror + (real \<times> real) list" where
  "add_points [] ring = Inr ring"
| "add_points (coord # coords) ring =
     ebind (item coord 0) (\<lambda>x.
     ebind (item coord 1) (\<lambda>y.
       add_points coords (ring @ [(x, y)])))"

text \<open>
  The ring construction, the same text at both places (new feature, geometry update):
  \<^verbatim>\<open>
    for coord in coords:
        ring.AddPoint(coord[0], coord[1])
    if not coord[0] == coords[0][0] and coord[1] == coords[0][1]:
        ring.AddPoint(coord[0][0], coord[0][1])
  \<close>
  After the loop \<open>coord\<close> is the last coordinate, or what the name was bound to before when
  \<open>coords\<close> is empty (\<open>prior\<close>; None when the name is unbound). \<open>not\<close> binds tighter than
  \<open>and\<close>, and \<open>and\<close> evaluates its right operand only when the left one is true. In the
  body of the \<open>if\<close>, \<open>coord[0]\<close> is a number, and subscripting it raises TypeError.
\<close>

definition build_ring :: "coord option \<Rightarrow> coord list \<Rightarrow> pyerror + (real \<times> real) list" where
  "build_ring prior coords =
     ebind (add_points coords []) (\<lambda>ring.
     ebind (case (if coords = [] then prior else Some (last coords)) of
              None \<Rightarrow> Inl (NameError ''coord'')
            | Some c \<Rightarrow> Inr c) (\<lambda>coord.
     ebind (item coord 0) (\<lambda>c0.
     ebind (item coords 0) (\<lambda>first.
     ebind (item first 0) (\<lambda>f0.
       if \<not> c0 = f0 then
         ebind (item coord 1) (\<lambda>c1.
         ebind (item coords 0) (\<lambda>first.
         ebind (item first 1) (\<lambda>f1.
           if c1 = f1 then Inl TypeError else Inr ring)))
       else Inr ring)))))"

text \<open>A ring is closed when it has a point and its last point equals its first point.\<close>

definition ring_closed :: "(real \<times> real) list \<Rightarrow> bool" where
  "ring_closed ring = (ring \<noteq> [] \<and> last ring = hd ring)"

section \<open>convertlibrarytotiles.py: the conversion loop\<close>

text \<open>
  The command line arguments that the loop reads. \<open>outdir\<close> is None when \<open>--outdir\<close> is not
  given; \<open>if args.outdir\<close> is false for None and for the empty string.
\<close>

record cargs =
  pixelqadir :: string
  fmaskdir :: string
  srdir :: string
  btdir :: string
  ndvidir :: string
  evidir :: string
  outdir :: "string option"
  vrt :: bool
  skipqa :: bool

definition dirs :: "cargs \<Rightarrow> string list" where
  "dirs args = [pixelqadir args, fmaskdir args, srdir args, btdir args, ndvidir args, evidir args]"

definition rastertypes :: "string list" where
  "rastertypes = [''pixel_qa'', ''Fmask'', ''ref'', ''BT'', ''NDVI'', ''EVI'']"

text \<open>\<open>os.path.join\<close> of two components, \<open>os.path.basename\<close> and \<open>str.endswith\<close> (POSIX).\<close>

definition path_join :: "string \<Rightarrow> string \<Rightarrow> string" where
  "path_join a b =
     (if b \<noteq> [] \<and> hd b = CHR ''/'' then b
      else if a = [] \<or> last a = CHR ''/'' then a @ b
      else a @ ''/'' @ b)"

definition basename :: "string \<Rightarrow> string" where
  "basename p = rev (takeWhile (\<lambda>c. c \<noteq> CHR ''/'') (rev p))"

definition endswith :: "string \<Rightarrow> string \<Rightarrow> bool" where
  "endswith s suffix =
     (length suffix \<le> length s \<and> drop (length s - length suffix) s = suffix)"

text \<open>\<open>xs.index(x)\<close>: the first position of \<open>x\<close>; it is only used for an element of \<open>xs\<close>.\<close>

fun index_of :: "'a list \<Rightarrow> 'a \<Rightarrow> nat" where
  "index_of [] x = 0"
| "index_of (y # ys) x = (if y = x then 0 else Suc (index_of ys x))"

text \<open>
  What a call of \<open>ieo.converttotiles\<close> does: it returns, raises an exception that
  \<open>except Exception\<close> catches (with its message), or raises one that it does not catch
  (KeyboardInterrupt, SystemExit). A call is \<open>(f, outdir, rastertype, pixelqa)\<close>; its
  outcome may also depend on the number of calls made before it. \<open>glob\<close> gives the files
  of a pattern.
\<close>

datatype outcome = Returns | Raises string | Raises_uncaught string

type_synonym call = "string \<times> string \<times> string \<times> bool"

text \<open>
  The file system as the run finds it: \<open>os.path.isdir\<close> before the run, and whether
  \<open>os.mkdir(path)\<close> creates the directory; otherwise it raises OSError (the parent is
  missing, the path is a file, permission is denied).
\<close>

record cfs =
  isdir :: "string \<Rightarrow> bool"
  mkdir :: "string \<Rightarrow> bool"

text \<open>
  The state of a run: the calls of \<open>ieo.converttotiles\<close>, the calls of \<open>ieo.logerror\<close>, and
  the directories that the run has made.
\<close>

record crun =
  calls :: "call list"
  errorlog :: "(string \<times> string) list"
  made :: "string list"

text \<open>\<open>if not os.path.isdir(p): os.mkdir(p)\<close>, outside every \<open>try\<close>.\<close>

definition ensure_dir :: "cfs \<Rightarrow> string \<Rightarrow> crun \<Rightarrow> pyerror + crun" where
  "ensure_dir fs p st =
     (if \<not> (isdir fs p \<or> p \<in> set (made st)) then
        (if mkdir fs p then Inr (st\<lparr>made := made st @ [p]\<rparr>) else Inl (OSError p))
      else Inr st)"

text \<open>The loop \<open>for f in flist\<close> with its \<open>try\<close>; \<open>errorlog\<close> holds the calls of \<open>ieo.logerror(f, e)\<close>.\<close>

fun convert_files ::
  "(nat \<Rightarrow> call \<Rightarrow> outcome) \<Rightarrow> string \<Rightarrow> string \<Rightarrow> bool \<Rightarrow> string list \<Rightarrow> crun
     \<Rightarrow> pyerror + crun" where
  "convert_files conv outd rastertype pixelqa [] st = Inr st"
| "convert_files conv outd rastertype pixelqa (f # flist) st =
     (case conv (length (calls st)) (f, outd, rastertype, pixelqa) of
        Returns \<Rightarrow>
          convert_files conv outd rastertype pixelqa flist
            (st\<lparr>calls := calls st @ [(f, outd, rastertype, pixelqa)]\<rparr>)
      | Raises e \<Rightarrow>
          convert_files conv outd rastertype pixelqa flist
            (st\<lparr>calls := calls st @ [(f, outd, rastertype, pixelqa)],
                errorlog := errorlog st @ [(f, e)]\<rparr>)
      | Raises_uncaught e \<Rightarrow> Inl (BaseException e))"

text \<open>
  The entries that a file loop adds to the error log: one for each file whose call raised
  a caught exception; \<open>kfs\<close> pairs each file with the number of calls made before its own.
\<close>

definition failures ::
  "(nat \<Rightarrow> call \<Rightarrow> outcome) \<Rightarrow> string \<Rightarrow> string \<Rightarrow> bool \<Rightarrow> (nat \<times> string) list
     \<Rightarrow> (string \<times> string) list" where
  "failures conv outd rt pq kfs =
     concat (map (\<lambda>(k, f). case conv k (f, outd, rt, pq) of Raises e \<Rightarrow> [(f, e)] | _ \<Rightarrow> []) kfs)"

text \<open>
  The choice of the output directory in the body of \<open>for d in dirs\<close>: with \<open>--outdir\<close> it is
  a subdirectory of it, made when it is not there; without, it is \<open>d\<close>.
\<close>

definition choose_outdir :: "cargs \<Rightarrow> cfs \<Rightarrow> string \<Rightarrow> crun \<Rightarrow> pyerror + string \<times> crun" where
  "choose_outdir args fs d st =
     (case outdir args of
        None \<Rightarrow> Inr (d, st)
      | Some od \<Rightarrow>
          if od \<noteq> [] then
            (let outd = path_join od (basename d)
             in case ensure_dir fs outd st of
                  Inl e \<Rightarrow> Inl e
                | Inr st' \<Rightarrow> Inr (outd, st'))
          else Inr (d, st))"

text \<open>The body of \<open>for d in dirs\<close>.\<close>

definition convert_dir ::
  "cargs \<Rightarrow> cfs \<Rightarrow> (string \<Rightarrow> string list) \<Rightarrow> (nat \<Rightarrow> call \<Rightarrow> outcome) \<Rightarrow> string \<Rightarrow> crun
     \<Rightarrow> pyerror + crun" where
  "convert_dir args fs glob conv d st =
     (let dn = index_of (dirs args) d
      in if skipqa args \<and> d \<in> set [pixelqadir args, fmaskdir args] then Inr st
         else
           (case choose_outdir args fs d st of
              Inl e \<Rightarrow> Inl e
            | Inr (outd, st) \<Rightarrow>
                (let flist =
                       (if vrt args then
                          (let d = (if \<not> endswith d ''vrt'' \<and>
                                       \<not> d \<in> set [pixelqadir args, fmaskdir args]
                                    then path_join d ''vrt'' else d)
                           in glob (path_join d ''L*.vrt''))
                        else glob (path_join d ''L*.dat''))
                 in if length flist > 0
                    then convert_files conv outd (rastertypes ! dn)
                           (if dn < 2 then False else True) flist st
                    else Inr st)))"

fun convert_dirs ::
  "cargs \<Rightarrow> cfs \<Rightarrow> (string \<Rightarrow> string list) \<Rightarrow> (nat \<Rightarrow> call \<Rightarrow> outcome) \<Rightarrow> string list \<Rightarrow> crun
     \<Rightarrow> pyerror + crun" where
  "convert_dirs args fs glob conv [] st = Inr st"
| "convert_dirs args fs glob conv (d # ds) st =
     (case convert_dir args fs glob conv d st of
        Inl e \<Rightarrow> Inl e
      | Inr st' \<Rightarrow> convert_dirs args fs glob conv ds st')"

text \<open>
  The script after the parsing of its arguments: \<open>--outdir\<close> is made when it is given and
  not there, then the loop runs.
\<close>

definition convertlibrarytotiles ::
  "cargs \<Rightarrow> cfs \<Rightarrow> (string \<Rightarrow> string list) \<Rightarrow> (nat \<Rightarrow> call \<Rightarrow> outcome) \<Rightarrow> pyerror + crun" where
  "convertlibrarytotiles args fs glob conv =
     (case (case outdir args of
              None \<Rightarrow> Inr \<lparr>calls = [], errorlog = [], made = []\<rparr>
            | Some od \<Rightarrow>
                if od \<noteq> [] then ensure_dir fs od \<lparr>calls = [], errorlog = [], made = []\<rparr>
                else Inr \<lparr>calls = [], errorlog = [], made = []\<rparr>) of
        Inl e \<Rightarrow> Inl e
      | Inr st \<Rightarrow> convert_dirs args fs glob conv (dirs args) st)"






section \<open>updatelandsat.py: populating the metadata fields of a scene\<close>

text \<open>The OGR field types that \<open>fieldvaluelist\<close> uses, and the table itself.\<close>

datatype oft = OFTString | OFTInteger | OFTReal | OFTDate

definition fieldvaluelist :: "(string \<times> string \<times> string \<times> oft \<times> nat) list" where
  "fieldvaluelist =
     [(''LandsatPID'', ''LANDSAT_PRODUCT_ID'', ''Landsat Product Identifier'', OFTString, 40),
      (''sceneID'', ''sceneID'', ''Landsat Scene Identifier'', OFTString, 21),
      (''SensorID'', ''SensorID'', ''Sensor Identifier'', OFTString, 0),
      (''SatNumber'', ''satelliteNumber'', ''Spacecraft Identifier'', OFTString, 0),
      (''acqDate'', ''acquisitionDate'', ''Acquisition Date'', OFTDate, 0),
      (''Updated'', ''dateUpdated'', ''modifiedDate'', OFTDate, 0),
      (''path'', ''path'', ''WRS Path'', OFTInteger, 0),
      (''row'', ''row'', ''WRS Row'', OFTInteger, 0),
      (''CenterLat'', ''sceneCenterLatitude'', ''Center Latitude dec'', OFTReal, 0),
      (''CenterLong'', ''sceneCenterLongitude'', ''Center Longitude dec'', OFTReal, 0),
      (''CC'', ''cloudCover'', ''Cloud Cover Truncated'', OFTInteger, 0),
      (''CCFull'', ''cloudCoverFull'', ''Scene Cloud Cover'', OFTReal, 0),
      (''CCLand'', ''CLOUD_COVER_LAND'', ''Land Cloud Cover'', OFTReal, 0),
      (''UL_Q_CCA'', ''FULL_UL_QUAD_CCA'', ''Cloud Cover Quadrant Upper Left'', OFTReal, 0),
      (''UR_Q_CCA'', ''FULL_UR_QUAD_CCA'', ''Cloud Cover Quadrant Upper Right'', OFTReal, 0),
      (''LL_Q_CCA'', ''FULL_LL_QUAD_CCA'', ''Cloud Cover Quadrant Lower Left'', OFTReal, 0),
      (''LR_Q_CCA'', ''FULL_LR_QUAD_CCA'', ''Cloud Cover Quadrant Lower Right'', OFTReal, 0),
      (''DT_L1'', ''DATA_TYPE_L1'', ''Data Type Level-1'', OFTString, 0),
      (''DT_L0RP'', ''DATA_TYPE_L0RP'', ''Data Type Level 0Rp'', OFTString, 0),
      (''L1_AVAIL'', ''L1_AVAILABLE'', ''L1 Available'', OFTString, 0),
      (''IMAGE_QUAL'', ''IMAGE_QUALITY'', ''Image Quality'', OFTString, 0),
      (''dayOrNight'', ''dayOrNight'', ''Day/Night Indicator'', OFTString, 0),
      (''sunEl'', ''sunElevation'', ''Sun Elevation L1'', OFTReal, 0),
      (''sunAz'', ''sunAzimuth'', ''Sun Azimuth L1'', OFTReal, 0),
      (''StartTime'', ''sceneStartTime'', ''Start Time'', OFTDate, 0),
      (''StopTime'', ''sceneStopTime'', ''Stop Time'', OFTDate, 0),
      (''UTM_ZONE'', ''UTM_ZONE'', ''UTM Zone'', OFTInteger, 0),
      (''DATUM'', ''DATUM'', ''Datum'', OFTString, 0),
      (''ELEVSOURCE'', ''ELEVATION_SOURCE'', ''Elevation Source'', OFTString, 0),
      (''ELLIPSOID'', ''ELLIPSOID'', ''Ellipsoid'', OFTString, 0),
      (''PROJ_L1'', ''MAP_PROJECTION_L1'', ''Map Projection Level-1'', OFTString, 0),
      (''PROJ_L0RA'', ''MAP_PROJECTION_L0RA'', ''Map Projection L0Ra'', OFTString, 0),
      (''ORIENT'', ''ORIENTATION'', ''Orientation'', OFTString, 0),
      (''EPHEM_TYPE'', ''EPHEMERIS_TYPE'', ''Ephemeris Type'', OFTString, 0),
      (''CPS_MODEL'', ''GROUND_CONTROL_POINTS_MODEL'', ''Ground Control Points Model'', OFTInteger, 0),
      (''GCPSVERIFY'', ''GROUND_CONTROL_POINTS_VERIFY'', ''Ground Control Points Version'', OFTInteger, 0),
      (''RMSE_MODEL'', ''GEOMETRIC_RMSE_MODEL'', ''Geometric RMSE Model (meters)'', OFTReal, 0),
      (''RMSE_X'', ''GEOMETRIC_RMSE_MODEL_X'', ''Geometric RMSE Model X'', OFTReal, 0),
      (''RMSE_Y'', ''GEOMETRIC_RMSE_MODEL_Y'', ''Geometric RMSE Model Y'', OFTReal, 0),
      (''RMSEVERIFY'', ''GEOMETRIC_RMSE_VERIFY'', ''Geometric RMSE Verify'', OFTReal, 0),
      (''FORMAT'', ''OUTPUT_FORMAT'', ''Output Format'', OFTString, 0),
      (''RESAMP_OPT'', ''RESAMPLING_OPTION'', ''Resampling Option'', OFTString, 0),
      (''LINES'', ''REFLECTIVE_LINES'', ''Reflective Lines'', OFTInteger, 0),
      (''SAMPLES'', ''REFLECTIVE_SAMPLES'', ''Reflective Samples'', OFTInteger, 0),
      (''TH_LINES'', ''THERMAL_LINES'', ''Thermal Lines'', OFTInteger, 0),
      (''TH_SAMPLES'', ''THERMAL_SAMPLES'', ''Thermal Samples'', OFTInteger, 0),
      (''PAN_LINES'', ''PANCHROMATIC_LINES'', ''Panchromatic Lines'', OFTInteger, 0),
      (''PANSAMPLES'', ''PANCHROMATIC_SAMPLES'', ''Panchromatic Samples'', OFTInteger, 0),
      (''GC_SIZE_R'', ''GRID_CELL_SIZE_REFLECTIVE'', ''Grid Cell Size Reflective'', OFTInteger, 0),
      (''GC_SIZE_TH'', ''GRID_CELL_SIZE_THERMAL'', ''Grid Cell Size Thermal'', OFTInteger, 0),
      (''GCSIZE_PAN'', ''GRID_CELL_SIZE_PANCHROMATIC'', ''Grid Cell Size Panchromatic'', OFTInteger, 0),
      (''PROCSOFTVE'', ''PROCESSING_SOFTWARE_VERSION'', ''Processing Software Version'', OFTString, 0),
      (''CPF_NAME'', ''CPF_NAME'', ''Calibration Parameter File'', OFTString, 0),
      (''DATEL1_GEN'', ''DATE_L1_GENERATED'', ''Date L-1 Generated'', OFTString, 0),
      (''GCP_Ver'', ''GROUND_CONTROL_POINTS_VERSION'', ''Ground Control Points Version'', OFTInteger, 0),
      (''DatasetID'', ''DatasetID'', ''Dataset Identifier'', OFTString, 0),
      (''CollectCat'', ''COLLECTION_CATEGORY'', ''Collection Category'', OFTString, 0),
      (''CollectNum'', ''COLLECTION_NUMBER'', ''Collection Number'', OFTString, 0),
      (''flightPath'', ''flightPath'', ''flightPath'', OFTString, 0),
      (''RecStation'', ''receivingStation'', ''Station Identifier'', OFTString, 0),
      (''imageQual1'', ''imageQuality1'', ''Image Quality 1'', OFTString, 0),
      (''imageQual2'', ''imageQuality2'', ''Image Quality 2'', OFTString, 0),
      (''gainBand1'', ''gainBand1'', ''Gain Band 1'', OFTString, 0),
      (''gainBand2'', ''gainBand2'', ''Gain Band 2'', OFTString, 0),
      (''gainBand3'', ''gainBand3'', ''Gain Band 3'', OFTString, 0),
      (''gainBand4'', ''gainBand4'', ''Gain Band 4'', OFTString, 0),
      (''gainBand5'', ''gainBand5'', ''Gain Band 5'', OFTString, 0),
      (''gainBand6H'', ''gainBand6H'', ''Gain Band 6H'', OFTString, 0),
      (''gainBand6L'', ''gainBand6L'', ''Gain Band 6L'', OFTString, 0),
      (''gainBand7'', ''gainBand7'', ''Gain Band 7'', OFTString, 0),
      (''gainBand8'', ''gainBand8'', ''Gain Band 8'', OFTString, 0),
      (''GainChange'', ''GainChange'', ''Gain Change'', OFTString, 0),
      (''GCBand1'', ''gainChangeBand1'', ''Gain Change Band 1'', OFTString, 0),
      (''GCBand2'', ''gainChangeBand2'', ''Gain Change Band 2'', OFTString, 0),
      (''GCBand3'', ''gainChangeBand3'', ''Gain Change Band 3'', OFTString, 0),
      (''GCBand4'', ''gainChangeBand4'', ''Gain Change Band 4'', OFTString, 0),
      (''GCBand5'', ''gainChangeBand5'', ''Gain Change Band 5'', OFTString, 0),
      (''GCBand6H'', ''gainChangeBand6H'', ''Gain Change Band 6H'', OFTString, 0),
      (''GCBand6L'', ''gainChangeBand6L'', ''Gain Change Band 6L'', OFTString, 0),
      (''GCBand7'', ''gainChangeBand7'', ''Gain Change Band 7'', OFTString, 0),
      (''GCBand8'', ''gainChangeBand8'', ''Gain Change Band 8'', OFTString, 0),
      (''SCAN_GAP_I'', ''SCAN_GAP_INTERPOLATION'', ''Scan Gap Interpolation'', OFTInteger, 0),
      (''ROLL_ANGLE'', ''ROLL_ANGLE'', ''Roll Angle'', OFTReal, 0),
      (''FULL_PART'', ''FULL_PARTIAL_SCENE'', ''Full Partial Scene'', OFTString, 0),
      (''NADIR_OFFN'', ''NADIR_OFFNADIR'', ''Nadir/Off Nadir'', OFTString, 0),
      (''RLUT_FNAME'', ''RLUT_FILE_NAME'', ''RLUT File Name'', OFTString, 0),
      (''BPF_N_OLI'', ''BPF_NAME_OLI'', ''Bias Parameter File Name OLI'', OFTString, 0),
      (''BPF_N_TIRS'', ''BPF_NAME_TIRS'', ''Bias Parameter File Name TIRS'', OFTString, 0),
      (''TIRS_SSM'', ''TIRS_SSM_MODEL'', ''TIRS SSM Model'', OFTString, 0),
      (''TargetPath'', ''Target_WRS_Path'', ''Target WRS Path'', OFTInteger, 0),
      (''TargetRow'', ''Target_WRS_Row'', ''Target WRS Row'', OFTInteger, 0),
      (''DataAnom'', ''data_anomaly'', ''Data Anomaly'', OFTString, 0),
      (''GapPSource'', ''gap_phase_source'', ''Gap Phase Source'', OFTString, 0),
      (''GapPStat'', ''gap_phase_statistic'', ''Gap Phase Statistic'', OFTReal, 0),
      (''L7SLConoff'', ''scan_line_corrector'', ''Scan Line Corrector'', OFTString, 0),
      (''SensorAnom'', ''sensor_anomalies'', ''Sensor Anomalies'', OFTString, 0),
      (''SensorMode'', ''sensor_mode'', ''Sensor Mode'', OFTString, 0),
      (''browse'', ''browseAvailable'', ''Browse Available'', OFTString, 0),
      (''browseURL'', ''browseURL'', ''browseUrl'', OFTString, 0),
      (''MetadatUrl'', ''metadataUrl'', ''metadataUrl'', OFTString, 0),
      (''FGDCMetdat'', ''fgdcMetadataUrl'', ''fgdcMetadataUrl'', OFTString, 0),
      (''dataAccess'', ''dataAccess'', ''dataAccessUrl'', OFTString, 0),
      (''orderUrl'', ''orderUrl'', ''orderUrl'', OFTString, 0),
      (''DownldUrl'', ''downloadUrl'', ''downloadUrl'', OFTString, 0)]"

definition queryfieldnames :: "string list" where
  "queryfieldnames = map (\<lambda>(shp, fname, query, typ, width). query) fieldvaluelist"

definition fnames :: "string list" where
  "fnames = map (\<lambda>(shp, fname, query, typ, width). fname) fieldvaluelist"

definition field_type :: "nat \<Rightarrow> oft" where
  "field_type i = (case fieldvaluelist ! i of (shp, fname, query, typ, width) \<Rightarrow> typ)"

text \<open>
  String methods: \<open>s.strip()\<close> (as \<open>rstrip().lstrip()\<close>), \<open>sub in s\<close>, \<open>s.replace(old, new)\<close>,
  \<open>s.lower()\<close> and \<open>s.rfind(c)\<close>, for ASCII strings.
\<close>

definition is_space :: "char \<Rightarrow> bool" where
  "is_space c = (c \<in> set [CHR '' '', CHR 0x09, CHR 0x0A, CHR 0x0B, CHR 0x0C, CHR 0x0D,
                            CHR 0x1C, CHR 0x1D, CHR 0x1E, CHR 0x1F])"

definition strip :: "string \<Rightarrow> string" where
  "strip s = dropWhile is_space (rev (dropWhile is_space (rev s)))"

fun contains :: "string \<Rightarrow> string \<Rightarrow> bool" where
  "contains sub [] = (sub = [])"
| "contains sub (c # s) = (take (length sub) (c # s) = sub \<or> contains sub s)"

function replace :: "string \<Rightarrow> string \<Rightarrow> string \<Rightarrow> string" where
  "replace s old new =
     (if old = [] then new @ concat (map (\<lambda>c. c # new) s)
      else if s = [] then []
      else if take (length old) s = old then new @ replace (drop (length old) s) old new
      else hd s # replace (tl s) old new)"
  by pat_completeness auto
termination
  by (relation "measure (\<lambda>(s, old, new). length s)") auto

declare replace.simps [simp del]

definition lower :: "string \<Rightarrow> string" where
  "lower s = map (\<lambda>c. let n = (of_char c :: nat)
                       in if 65 \<le> n \<and> n \<le> 90 then char_of (n + 32) else c) s"

definition rfind :: "string \<Rightarrow> char \<Rightarrow> int" where
  "rfind s c =
     (if c \<in> set s then int (length s) - 1 - int (length (takeWhile (\<lambda>x. x \<noteq> c) (rev s)))
      else - 1)"

text \<open>
  The builtins that convert a metadata value: \<open>int(value)\<close>, \<open>float(value)\<close> and
  \<open>datetime.datetime.strptime(value, format)\<close>. Each gives None where Python raises
  ValueError. Floats and datetimes are values of the types \<open>'f\<close> and \<open>'d\<close>.
\<close>

record ('f, 'd) builtins =
  py_int :: "string \<Rightarrow> int option"
  py_float :: "string \<Rightarrow> 'f option"
  strptime :: "string \<Rightarrow> string \<Rightarrow> 'd option"

datatype ('f, 'd) pyval = VStr string | VInt int | VFloat 'f | VDate 'd | VBool bool

text \<open>
  The entry \<open>scenedict[sceneID]\<close> that the search loop creates from a search result; \<open>result\<close>
  gives the strings of the JSON object by key.
\<close>

definition initial_entry ::
  "(string \<Rightarrow> string) \<Rightarrow> 'd \<Rightarrow> string \<Rightarrow> (string \<rightharpoonup> ('f, 'd) pyval)" where
  "initial_entry result modifiedDate datasetName =
     map_of
       [(''Landsat Product Identifier'', VStr (result ''displayId'')),
        (''browseUrl'', VStr (result ''browseUrl'')),
        (''dataAccessUrl'', VStr (result ''dataAccessUrl'')),
        (''downloadUrl'', VStr (result ''downloadUrl'')),
        (''metadataUrl'', VStr (result ''metadataUrl'')),
        (''fgdcMetadataUrl'', VStr (result ''fgdcMetadataUrl'')),
        (''modifiedDate'', VDate modifiedDate),
        (''orderUrl'', VStr (result ''orderUrl'')),
        (''Dataset Identifier'', VStr datasetName),
        (''updatemodifiedDate'', VBool False),
        (''updategeom'', VBool False)]"

text \<open>
  What the loop over the metadata fields does besides changing the entry: it prints, and
  it could call \<open>ieo.logerror\<close>. A run of the loop gives the events in order and its result.
\<close>

datatype event = Printed string | Logged string string

fun logged_events :: "event list \<Rightarrow> (string \<times> string) list" where
  "logged_events [] = []"
| "logged_events (Printed msg # evs) = logged_events evs"
| "logged_events (Logged what msg # evs) = (what, msg) # logged_events evs"

text \<open>
  The conversion of a non-empty value by the type of its field (the chain of \<open>if\<close> and
  \<open>elif\<close> after \<open>i = queryfieldnames.index(fieldname)\<close>). A date or a float that does not
  parse raises ValueError, which nothing catches; an integer that does not parse is caught
  by the bare \<open>except\<close>, which prints a message and calls \<open>sys.exit()\<close>. The result is the
  converted value and the entry, to which the \<open>browseUrl\<close> branch adds \<open>browse\<close>.
\<close>

definition convert_value ::
  "('f, 'd) builtins \<Rightarrow> oft \<Rightarrow> string \<Rightarrow> string \<Rightarrow> (string \<rightharpoonup> ('f, 'd) pyval)
     \<Rightarrow> event list \<times> (pyerror + ('f, 'd) pyval \<times> (string \<rightharpoonup> ('f, 'd) pyval))" where
  "convert_value bi typ fieldname v entry =
     (if typ = OFTDate \<or> endswith fieldname ''Date'' then
        (case (if contains ''Time'' fieldname
               then strptime bi (py_slice v 0 (- 1)) ''%Y:%j:%H:%M:%S.%f''
               else if CHR ''/'' \<in> set v then strptime bi v ''%Y/%m/%d''
               else strptime bi v ''%Y-%m-%d'') of
           None \<Rightarrow> ([], Inl ValueError)
         | Some t \<Rightarrow> ([], Inr (VDate t, entry)))
      else if typ = OFTReal then
        (case py_float bi v of
           None \<Rightarrow> ([], Inl ValueError)
         | Some x \<Rightarrow> ([], Inr (VFloat x, entry)))
      else if typ = OFTInteger then
        (case py_int bi v of
           None \<Rightarrow>
             ([Printed (''Error: fieldname '' @ fieldname @ '' has a value of '' @ v @ ''.'')],
              Inl SystemExit)
         | Some n \<Rightarrow> ([], Inr (VInt n, entry)))
      else if fieldname = ''browseUrl'' then
        (if lower v \<noteq> ''null'' then ([], Inr (VStr v, entry(''browse'' \<mapsto> VStr ''Y'')))
         else ([], Inr (VStr v, entry(''browse'' \<mapsto> VStr ''N''))))
      else if fieldname = ''Data Type Level-1'' then
        ([], Inr (VStr (drop (nat (rfind v (CHR ''_'') + 1)) v), entry))
      else ([], Inr (VStr v, entry)))"

text \<open>
  The body of \<open>for subitem in item['metadataFields']\<close> for one subitem, given as its
  \<open>fieldName\<close> and its \<open>value\<close> (None for a JSON null), and the loop.
\<close>

definition populate_field ::
  "('f, 'd) builtins \<Rightarrow> string \<times> string option \<Rightarrow> (string \<rightharpoonup> ('f, 'd) pyval)
     \<Rightarrow> event list \<times> (pyerror + (string \<rightharpoonup> ('f, 'd) pyval))" where
  "populate_field bi subitem entry =
     (let fieldname = replace (strip (fst subitem)) ''L-1'' ''L1''
      in if fieldname \<in> set queryfieldnames \<and> entry fieldname = None \<and>
            fieldname \<noteq> ''Landsat Scene Identifier''
         then
           (case snd subitem of
              None \<Rightarrow> ([], Inr entry)
            | Some v \<Rightarrow>
                if v = [] then ([], Inr entry)
                else
                  (let i = index_of queryfieldnames fieldname
                   in case convert_value bi (field_type i) fieldname v entry of
                        (evs, Inl e) \<Rightarrow> (evs, Inl e)
                      | (evs, Inr (val, entry')) \<Rightarrow> (evs, Inr (entry'(fieldname \<mapsto> val)))))
         else ([], Inr entry))"

fun populate_fields ::
  "('f, 'd) builtins \<Rightarrow> (string \<times> string option) list \<Rightarrow> (string \<rightharpoonup> ('f, 'd) pyval)
     \<Rightarrow> event list \<times> (pyerror + (string \<rightharpoonup> ('f, 'd) pyval))" where
  "populate_fields bi [] entry = ([], Inr entry)"
| "populate_fields bi (subitem # subitems) entry =
     (case populate_field bi subitem entry of
        (evs, Inl e) \<Rightarrow> (evs, Inl e)
      | (evs, Inr entry') \<Rightarrow>
          (case populate_fields bi subitems entry' of
             (evs', r) \<Rightarrow> (evs @ evs', r)))"

text \<open>
  \<open>int(s)\<close> for an ASCII string: white space around, an optional sign, and decimal digits
  that single underscores may separate. The example environment has this \<open>int\<close>; its
  \<open>float\<close> and \<open>strptime\<close> are not reached by the fields of the example.
\<close>

definition is_digit :: "char \<Rightarrow> bool" where
  "is_digit c = (let n = (of_char c :: nat) in 48 \<le> n \<and> n \<le> 57)"

definition py_int_ascii :: "string \<Rightarrow> int option" where
  "py_int_ascii s =
     (let t = strip s;
          negative = (t \<noteq> [] \<and> hd t = CHR ''-'');
          body = (if t \<noteq> [] \<and> (hd t = CHR ''-'' \<or> hd t = CHR ''+'') then tl t else t);
          ds = filter (\<lambda>c. c \<noteq> CHR ''_'') body
      in if body = [] \<or> hd body = CHR ''_'' \<or> last body = CHR ''_'' \<or> contains ''__'' body \<or>
            \<not> list_all is_digit ds
         then None
         else (let n = foldl (\<lambda>a c. 10 * a + (int (of_char c) - 48)) 0 ds
               in Some (if negative then - n else n)))"

definition example_builtins :: "(real, int) builtins" where
  "example_builtins = \<lparr>py_int = py_int_ascii, py_float = (\<lambda>s. None), strptime = (\<lambda>s fmt. None)\<rparr>"

definition example_entry :: "string \<rightharpoonup> (real, int) pyval" where
  "example_entry =
     initial_entry (\<lambda>key. ''https://earthexplorer.usgs.gov/'' @ key) 735008 ''LANDSAT_8_C1''"

section \<open>updatelandsat.py: migrate\<close>

text \<open>
  A name that a function assigns anywhere in its body is a local variable of the function
  in the whole body. \<open>frame\<close> holds the local variables that are bound; reading a local
  variable that is not bound raises UnboundLocalError. Keyword arguments are a dictionary
  of values.
\<close>

datatype kwval = KNone | KBool bool | KStr string

definition load_local :: "string \<Rightarrow> (string \<rightharpoonup> kwval) \<Rightarrow> pyerror + kwval" where
  "load_local name frame =
     (case frame name of None \<Rightarrow> Inl (UnboundLocalError name) | Some v \<Rightarrow> Inr v)"

definition kwargs_get :: "(string \<rightharpoonup> kwval) \<Rightarrow> string \<Rightarrow> kwval \<Rightarrow> kwval" where
  "kwargs_get kwargs key dflt = (case kwargs key of None \<Rightarrow> dflt | Some v \<Rightarrow> v)"

definition truthy :: "kwval \<Rightarrow> bool" where
  "truthy v = (case v of KNone \<Rightarrow> False | KBool b \<Rightarrow> b | KStr s \<Rightarrow> s \<noteq> [])"

text \<open>
  \<open>os.path.dirname\<close> (POSIX), \<open>s.find(sub)\<close> and \<open>'{}'.format(v)\<close> of a string or None.
\<close>

definition dirname :: "string \<Rightarrow> string" where
  "dirname p =
     (let head = rev (dropWhile (\<lambda>c. c \<noteq> CHR ''/'') (rev p));
          stripped = rev (dropWhile (\<lambda>c. c = CHR ''/'') (rev head))
      in if stripped = [] then head else stripped)"

fun find_from :: "string \<Rightarrow> string \<Rightarrow> int \<Rightarrow> int" where
  "find_from sub [] k = (if sub = [] then k else - 1)"
| "find_from sub (c # s) k =
     (if take (length sub) (c # s) = sub then k else find_from sub s (k + 1))"

definition str_find :: "string \<Rightarrow> string \<Rightarrow> int" where
  "str_find s sub = find_from sub s 0"

definition format :: "string option \<Rightarrow> string" where
  "format v = (case v of None \<Rightarrow> ''None'' | Some s \<Rightarrow> s)"

text \<open>
  A feature of the shapefile: its fields (None is a null field) and its geometry. A
  feature that migrate builds: the \<open>SetField\<close> calls in order, and the geometry set. The
  geopackage layer: the \<open>sceneID\<close> fields of its features, and the features given to
  \<open>layer.SetFeature\<close>.
\<close>

record 'g shpfeature =
  GetField :: "string \<Rightarrow> string option"
  GetGeometryRef :: 'g

record 'g shplayer =
  fieldnames :: "string list"
  shpfeatures :: "'g shpfeature list"

record 'g outfeature =
  SetField :: "(string \<times> string option) list"
  SetGeometry :: "'g option"

record 'g gpkglayer =
  sceneIDs :: "string option list"
  SetFeature :: "'g outfeature list"

text \<open>
  What migrate reads from outside: the directories of the ieo configuration, \<open>jpgdir\<close>,
  \<open>glob.glob\<close>, \<open>os.path.isfile\<close> and \<open>ieo.checkscenegeometry(feature, verbose = verbose)\<close>.
\<close>

record 'g menv =
  ieo_srdir :: string
  ieo_btdir :: string
  ieo_fmaskdir :: string
  ieo_pixelqadir :: string
  ieo_ndvidir :: string
  ieo_evidir :: string
  jpgdir :: string
  mglob :: "string \<Rightarrow> string list"
  isfile :: "string \<Rightarrow> bool"
  checkscenegeometry :: "'g shpfeature \<Rightarrow> kwval \<Rightarrow> bool"

definition tilesearchdict :: "'g menv \<Rightarrow> string \<Rightarrow> (string \<times> string) list" where
  "tilesearchdict env tiledir =
     [(''SR_path'', path_join tiledir (basename (ieo_srdir env))),
      (''BT_path'', path_join tiledir (basename (ieo_btdir env))),
      (''Fmask_path'', path_join tiledir (basename (ieo_fmaskdir env))),
      (''PixQA_path'', path_join tiledir (basename (ieo_pixelqadir env))),
      (''NDVI_path'', path_join tiledir (basename (ieo_ndvidir env))),
      (''EVI_path'', path_join tiledir (basename (ieo_evidir env)))]"

text \<open>
  \<open>fieldvaluedict\<close>: the first two columns of the table, a later row replacing an earlier
  one with the same key, then the nine entries assigned after the loop.
\<close>

definition fieldvaluedict ::
  "(string \<times> string \<times> string \<times> oft \<times> nat) list \<Rightarrow> (string \<rightharpoonup> string)" where
  "fieldvaluedict fvl =
     map_of (map (\<lambda>(shp, fname, query, typ, width). (shp, fname)) (rev fvl)) ++
     map_of [(''MaskType'', ''Scene_mask_type''),
             (''Thumb_JPG'', ''Thumbnail_filename''),
             (''SR_path'', ''Surface_reflectance_tiles''),
             (''BT_path'', ''Brightness_temperature_tiles''),
             (''Fmask_path'', ''CFmask_tiles''),
             (''PixQA_path'', ''Pixel_QA_tiles''),
             (''NDVI_path'', ''NDVI_tiles''),
             (''EVI_path'', ''EVI_tiles''),
             (''tilebase'', ''Tile_filename_base'')]"

text \<open>\<open>os.path.isfile\<close> and \<open>os.path.join\<close> raise TypeError for None.\<close>

definition isfile_opt :: "'g menv \<Rightarrow> string option \<Rightarrow> pyerror + bool" where
  "isfile_opt env v = (case v of None \<Rightarrow> Inl TypeError | Some p \<Rightarrow> Inr (isfile env p))"

definition join_opt :: "string \<Rightarrow> string option \<Rightarrow> pyerror + string" where
  "join_opt a v = (case v of None \<Rightarrow> Inl TypeError | Some b \<Rightarrow> Inr (path_join a b))"

text \<open>The body of \<open>for field in fnamelist\<close> for one field, and the loop.\<close>

definition migrate_field ::
  "'g menv \<Rightarrow> string \<Rightarrow> (string \<rightharpoonup> string) \<Rightarrow> 'g shpfeature \<Rightarrow> string option \<Rightarrow> string
     \<Rightarrow> 'g outfeature \<Rightarrow> pyerror + 'g outfeature" where
  "migrate_field env tiledir fvd feature tilebase field out =
     (case map_of (tilesearchdict env tiledir) field of
        Some dir \<Rightarrow>
          (let filelist = mglob env (path_join dir (format tilebase @ ''_*.dat''))
           in if length filelist > 0 then
                (let tilestr =
                       concat (map (\<lambda>f. let bn = basename f; j = str_find bn ''.dat''
                                        in CHR '','' # py_slice bn 12 j) filelist)
                 in case fvd field of
                      None \<Rightarrow> Inl (KeyError field)
                    | Some name \<Rightarrow> Inr (out\<lparr>SetField := SetField out @ [(name, Some (drop 1 tilestr))]\<rparr>))
              else Inr out)
      | None \<Rightarrow>
          (case fvd field of
             None \<Rightarrow> Inr out
           | Some name \<Rightarrow>
               if field = ''Thumbnail_filename'' then
                 ebind (isfile_opt env (GetField feature field)) (\<lambda>there.
                 ebind (if \<not> there then
                          ebind (join_opt (jpgdir env) (GetField feature ''LandsatPID'')) (\<lambda>v.
                            if \<not> isfile env v
                            then join_opt (jpgdir env) (GetField feature ''sceneID'')
                            else Inr v)
                        else Inr (format (GetField feature field))) (\<lambda>v.
                   if isfile env v
                   then Inr (out\<lparr>SetField := SetField out @ [(name, Some (basename v))]\<rparr>)
                   else Inr out))
               else Inr (out\<lparr>SetField := SetField out @ [(name, GetField feature field)]\<rparr>)))"

fun migrate_fields ::
  "'g menv \<Rightarrow> string \<Rightarrow> (string \<rightharpoonup> string) \<Rightarrow> 'g shpfeature \<Rightarrow> string option \<Rightarrow> string list
     \<Rightarrow> 'g outfeature \<Rightarrow> pyerror + 'g outfeature" where
  "migrate_fields env tiledir fvd feature tilebase [] out = Inr out"
| "migrate_fields env tiledir fvd feature tilebase (field # fnamelist) out =
     ebind (migrate_field env tiledir fvd feature tilebase field out)
       (migrate_fields env tiledir fvd feature tilebase fnamelist)"

text \<open>
  The body of \<open>for feature in shplayer\<close>, and the loop. \<open>sceneids\<close> are the scene identifiers
  read from the geopackage layer before the loop.
\<close>

definition migrate_feature ::
  "'g menv \<Rightarrow> string \<Rightarrow> kwval \<Rightarrow> (string \<rightharpoonup> string) \<Rightarrow> string option list \<Rightarrow> string list
     \<Rightarrow> 'g shpfeature \<Rightarrow> 'g gpkglayer \<Rightarrow> pyerror + 'g gpkglayer" where
  "migrate_feature env tiledir verbose fvd sceneids fnamelist feature layer =
     (let sceneid = GetField feature ''sceneID''
      in if (\<not> checkscenegeometry env feature verbose) \<and> sceneid \<in> set sceneids then
           ebind (migrate_fields env tiledir fvd feature (GetField feature ''tilebase'') fnamelist
                    \<lparr>SetField = [], SetGeometry = None\<rparr>) (\<lambda>out.
             Inr (layer\<lparr>SetFeature :=
                          SetFeature layer @ [out\<lparr>SetGeometry := Some (GetGeometryRef feature)\<rparr>]\<rparr>))
         else Inr layer)"

fun migrate_features ::
  "'g menv \<Rightarrow> string \<Rightarrow> kwval \<Rightarrow> (string \<rightharpoonup> string) \<Rightarrow> string option list \<Rightarrow> string list
     \<Rightarrow> 'g shpfeature list \<Rightarrow> 'g gpkglayer \<Rightarrow> pyerror + 'g gpkglayer" where
  "migrate_features env tiledir verbose fvd sceneids fnamelist [] layer = Inr layer"
| "migrate_features env tiledir verbose fvd sceneids fnamelist (feature # rest) layer =
     ebind (migrate_feature env tiledir verbose fvd sceneids fnamelist feature layer)
       (migrate_features env tiledir verbose fvd sceneids fnamelist rest)"

text \<open>
  migrate from its third statement on (\<open>print('Migrating data ...')\<close> to \<open>return layer\<close>), with
  \<open>tiledir\<close> and \<open>verbose\<close> as the first two statements would bind them.
\<close>

definition migrate_body ::
  "'g menv \<Rightarrow> 'g gpkglayer \<Rightarrow> 'g shplayer \<Rightarrow> (string \<times> string \<times> string \<times> oft \<times> nat) list
     \<Rightarrow> kwval \<Rightarrow> kwval \<Rightarrow> pyerror + 'g gpkglayer" where
  "migrate_body env layer shp fvl tiledir verbose =
     (case tiledir of
        KStr td \<Rightarrow>
          (let featureCount = length (sceneIDs layer);
               sceneids = (if featureCount > 0 then sceneIDs layer else [])
           in migrate_features env td verbose (fieldvaluedict fvl) sceneids (fieldnames shp)
                (shpfeatures shp) layer)
      | _ \<Rightarrow> Inl TypeError)"

text \<open>
  migrate. Its first statement binds \<open>tiledir\<close>. Its second statement is
  \<open>verbose = kwargs.get('verbose', verbose)\<close>: the arguments of the call are evaluated
  before the call, and the second argument reads the local variable \<open>verbose\<close>. \<open>globals\<close>
  are the names of the module; they are not looked at for a local name.
\<close>

definition migrate ::
  "'g menv \<Rightarrow> (string \<rightharpoonup> kwval) \<Rightarrow> 'g gpkglayer \<Rightarrow> 'g shplayer
     \<Rightarrow> (string \<times> string \<times> string \<times> oft \<times> nat) list \<Rightarrow> (string \<rightharpoonup> kwval)
     \<Rightarrow> pyerror + 'g gpkglayer" where
  "migrate env globals layer shp fvl kwargs =
     (let frame = Map.empty;
          frame = frame(''tiledir'' \<mapsto> kwargs_get kwargs ''tiledir'' (KStr (dirname (ieo_srdir env))))
      in ebind (load_local ''verbose'' frame) (\<lambda>dflt.
           let frame = frame(''verbose'' \<mapsto> kwargs_get kwargs ''verbose'' dflt)
           in ebind (load_local ''tiledir'' frame) (\<lambda>tiledir.
              ebind (load_local ''verbose'' frame) (\<lambda>verbose.
                migrate_body env layer shp fvl tiledir verbose))))"

text \<open>
  The call site: \<open>if args.migrate and os.path.isfile(shapefilepath)\<close>, with the keyword
  arguments \<open>tiledir = args.tiledir, verbose = args.verbose\<close>. The result is the layer after
  the statement, or the exception.
\<close>

definition migrate_call ::
  "'g menv \<Rightarrow> (string \<rightharpoonup> kwval) \<Rightarrow> bool \<Rightarrow> bool \<Rightarrow> string \<Rightarrow> bool \<Rightarrow> 'g gpkglayer \<Rightarrow> 'g shplayer
     \<Rightarrow> pyerror + 'g gpkglayer" where
  "migrate_call env globals args_migrate shapefile_exists args_tiledir args_verbose layer shp =
     (if args_migrate \<and> shapefile_exists
      then migrate env globals layer shp fieldvaluelist
             [''tiledir'' \<mapsto> KStr args_tiledir, ''verbose'' \<mapsto> KBool args_verbose]
      else Inr layer)"

text \<open>
  A legacy shapefile with one feature whose geometry check passes, and an environment in
  which no tile files exist.
\<close>

definition example_shpfeature :: "(real \<times> real) list shpfeature" where
  "example_shpfeature =
     \<lparr>GetField = map_of [(''sceneID'', ''LC82060232013100LGN00''),
                         (''SensorID'', ''OLI_TIRS''),
                         (''tilebase'', ''LC8_2013100'')],
      GetGeometryRef = [(0, 0), (1, 0), (1, 1), (0, 1), (0, 0)]\<rparr>"

definition example_shplayer :: "(real \<times> real) list shplayer" where
  "example_shplayer =
     \<lparr>fieldnames = [''sceneID'', ''SensorID'', ''tilebase''], shpfeatures = [example_shpfeature]\<rparr>"

definition example_menv :: "(real \<times> real) list menv" where
  "example_menv =
     \<lparr>ieo_srdir = ''/lib/SR'', ieo_btdir = ''/lib/BT'', ieo_fmaskdir = ''/lib/Fmask'',
      ieo_pixelqadir = ''/lib/pixel_qa'', ieo_ndvidir = ''/lib/NDVI'', ieo_evidir = ''/lib/EVI'',
      jpgdir = ''/cat/Landsat/Thumbnails'', mglob = (\<lambda>pattern. []), isfile = (\<lambda>p. False),
      checkscenegeometry = (\<lambda>feature verbose. False)\<rparr>"

definition new_layer :: "(real \<times> real) list gpkglayer" where
  "new_layer = \<lparr>sceneIDs = [], SetFeature = []\<rparr>"

section \<open>updatelandsat.py: the validation pass over the catalog layer\<close>

text \<open>
  The pass tests the module's name \<open>feature\<close>, whose value is a feature or None.
\<close>

text \<open>
  What the pass reads from a feature: its identifier, \<open>GetField("sceneID")\<close> (None when the
  read raises; a read that returns is taken to return a string, the field being set in every
  feature that the script creates), the fields \<open>SensorID\<close> and \<open>dateUpdated\<close> (None for a
  null field), and
  \<open>GetGeometryRef().GetEnvelope()\<close>, which is \<open>(minX, maxX, minY, maxY)\<close> (None when reading
  the geometry raises). \<open>geometry\<close> is the geometry that the feature holds.
\<close>

record 'g cfeature =
  FID :: nat
  sceneID_field :: "string option"
  SensorID :: "string option"
  dateUpdated :: "string option"
  envelope :: "(real \<times> real \<times> real \<times> real) option"
  geometry :: 'g

text \<open>The layer with its reading position, and \<open>layer.GetNextFeature()\<close>.\<close>

record 'g catalog =
  cfeatures :: "'g cfeature list"
  cursor :: nat

definition GetNextFeature :: "'g catalog \<Rightarrow> 'g cfeature option \<times> 'g catalog" where
  "GetNextFeature layer =
     (if cursor layer < length (cfeatures layer)
      then (Some (cfeatures layer ! cursor layer), layer\<lparr>cursor := cursor layer + 1\<rparr>)
      else (None, layer))"

text \<open>
  The variables that the pass changes: the lists, the error counters, the latest update,
  the identifiers given to \<open>layer.DeleteFeature\<close>, and the calls of \<open>ieo.logerror\<close>.
\<close>

record vstate =
  scenelist :: "string list"
  reimport :: "int list"
  updatemissing :: "string list"
  badgeom :: "string list"
  errors_total :: nat
  errors_metadata :: nat
  errors_date :: nat
  errors_geometry :: nat
  lastupdate :: "int option"
  lastmodifiedDate :: "string option"
  DeleteFeature :: "nat list"
  logerror :: "(string \<times> string) list"

definition vstate_init :: vstate where
  "vstate_init =
     \<lparr>scenelist = [], reimport = [], updatemissing = [], badgeom = [], errors_total = 0,
      errors_metadata = 0, errors_date = 0, errors_geometry = 0, lastupdate = None,
      lastmodifiedDate = None, DeleteFeature = [], logerror = []\<rparr>"

text \<open>
  \<open>datetime.datetime.strptime\<close> with the formats \<open>'%Y/%m/%d'\<close> and \<open>'%Y%j'\<close>; each gives the
  ordinal of the date, or None where Python raises ValueError.
\<close>

record venv =
  strptime_ymd :: "string \<Rightarrow> int option"
  strptime_yj :: "string \<Rightarrow> int option"

definition valid_sensors :: "string option list" where
  "valid_sensors = map Some [''TM'', ''ETM'', ''OLI'', ''TIRS'', ''OLI_TIRS'']"

text \<open>
  The \<open>try\<close> block that reads \<open>dateUpdated\<close>: a null field or a date that does not parse is
  caught, logged and recorded in \<open>updatemissing\<close>.
\<close>

definition check_date :: "venv \<Rightarrow> string \<Rightarrow> 'g cfeature \<Rightarrow> vstate \<Rightarrow> vstate" where
  "check_date env sceneID feature st =
     (case (case dateUpdated feature of None \<Rightarrow> None
            | Some mdate \<Rightarrow> map_option (Pair mdate) (strptime_ymd env mdate)) of
        Some (mdate, datetuple) \<Rightarrow>
          if lastupdate st = None \<or> datetuple > the (lastupdate st)
          then st\<lparr>lastupdate := Some datetuple, lastmodifiedDate := Some mdate\<rparr>
          else st
      | None \<Rightarrow>
          st\<lparr>logerror := logerror st @ [(sceneID, ''Modification date missing.'')],
             updatemissing := updatemissing st @ [sceneID],
             errors_total := errors_total st + 1,
             errors_date := errors_date st + 1\<rparr>)"

text \<open>
  The \<open>try\<close> block that reads the geometry. In its \<open>except\<close> branch, with \<open>args.verbose\<close>,
  \<open>print\<close> is called with the keyword \<open>errorfile\<close>, which raises TypeError.
\<close>

definition check_geometry :: "bool \<Rightarrow> string \<Rightarrow> 'g cfeature \<Rightarrow> vstate \<Rightarrow> pyerror + vstate" where
  "check_geometry verbose sceneID feature st =
     (case envelope feature of
        Some (minX, maxX, minY, maxY) \<Rightarrow>
          if minX = maxX \<or> minY = maxY
          then Inr (st\<lparr>logerror := logerror st @ [(sceneID, ''Bad/ missing geometry.'')],
                       badgeom := badgeom st @ [sceneID]\<rparr>)
          else Inr st
      | None \<Rightarrow>
          if verbose then Inl TypeError
          else Inr (st\<lparr>logerror := logerror st @ [(sceneID, ''Bad/ missing geometry.'')],
                       badgeom := badgeom st @ [sceneID],
                       errors_total := errors_total st + 1,
                       errors_geometry := errors_geometry st + 1\<rparr>))"

text \<open>The body of \<open>while feature\<close> up to the statement that fetches the next feature.\<close>

definition validate_feature :: "venv \<Rightarrow> bool \<Rightarrow> 'g cfeature \<Rightarrow> vstate \<Rightarrow> pyerror + vstate" where
  "validate_feature env verbose feature st =
     (case sceneID_field feature of
        None \<Rightarrow>
          Inr (st\<lparr>DeleteFeature := DeleteFeature st @ [FID feature],
                  logerror := logerror st @ [(''catgpkg/shapefile'', ''exc_type fname lineno'')]\<rparr>)
      | Some sceneID \<Rightarrow>
          (let st = st\<lparr>scenelist := scenelist st @ [sceneID]\<rparr>
           in if \<not> SensorID feature \<in> set valid_sensors then
                (let st = st\<lparr>logerror := logerror st @
                            [(sceneID, ''Feature missing metadata, deleted, reimportation required.'')]\<rparr>
                 in case strptime_yj env (py_slice sceneID 9 16) of
                      None \<Rightarrow> Inl ValueError
                    | Some acquired \<Rightarrow>
                        Inr (st\<lparr>reimport := reimport st @ [acquired],
                                DeleteFeature := DeleteFeature st @ [FID feature],
                                errors_total := errors_total st + 1,
                                errors_metadata := errors_metadata st + 1\<rparr>))
              else check_geometry verbose sceneID feature (check_date env sceneID feature st)))"

text \<open>\<open>while feature\<close>: a feature is true, None is false.\<close>

function validate_loop ::
  "venv \<Rightarrow> bool \<Rightarrow> 'g cfeature option \<Rightarrow> 'g catalog \<Rightarrow> vstate \<Rightarrow> pyerror + vstate" where
  "validate_loop env verbose None layer st = Inr st"
| "validate_loop env verbose (Some feature) layer st =
     (case validate_feature env verbose feature st of
        Inl e \<Rightarrow> Inl e
      | Inr st' \<Rightarrow>
          (case GetNextFeature layer of
             (next_feature, layer') \<Rightarrow> validate_loop env verbose next_feature layer' st'))"
  by pat_completeness auto
termination
  by (relation "measure (\<lambda>(env, verbose, feature, layer, st).
        (case feature of None \<Rightarrow> 0 | Some f \<Rightarrow> 1) + (length (cfeatures layer) - cursor layer))")
    (auto simp: GetNextFeature_def split: if_splits)

text \<open>
  The pass. Before the loop it calls \<open>layer.GetNextFeature()\<close> and drops the result; the
  loop then tests the name \<open>feature\<close> as the statements before the pass left it.
\<close>

definition validation_pass ::
  "venv \<Rightarrow> bool \<Rightarrow> 'g cfeature option binding \<Rightarrow> 'g catalog \<Rightarrow> vstate \<Rightarrow> pyerror + vstate" where
  "validation_pass env verbose feature layer st =
     (let featureCount = length (cfeatures layer)
      in if featureCount > 0 then
           (case GetNextFeature layer of
              (dropped, layer') \<Rightarrow>
                (case feature of
                   Unbound \<Rightarrow> Inl (NameError ''feature'')
                 | Bound f \<Rightarrow> validate_loop env verbose f layer' st))
         else Inr st)"

text \<open>
  The only statement before the pass that binds the module's name \<open>feature\<close> is
  \<open>for feature in layer\<close> over the WRS-2 layer, run when \<open>useWRS2\<close> is \<open>yes\<close>.
\<close>

definition feature_before_pass :: "bool \<Rightarrow> 'g cfeature list \<Rightarrow> 'g cfeature option binding" where
  "feature_before_pass useWRS2 wrs2 =
     (if useWRS2 \<and> wrs2 \<noteq> [] then Bound (Some (last wrs2)) else Unbound)"




text \<open>
  An environment for the examples: \<open>'%Y%j'\<close> for seven digits and \<open>'%Y/%m/%d'\<close> for
  \<open>YYYY/MM/DD\<close>, and four features: one of the WRS-2 layer, which has no field \<open>sceneID\<close>,
  and three of a catalog: a sound one, one without sensor and with an empty envelope, and
  one with a sensor and a degenerate envelope. The example catalog holds the first two, and
  \<open>example_coords\<close> is a closed footprint.
\<close>

definition digits_val :: "string \<Rightarrow> int option" where
  "digits_val s =
     (if s \<noteq> [] \<and> list_all is_digit s
      then Some (foldl (\<lambda>a c. 10 * a + (int (of_char c) - 48)) 0 s) else None)"

definition example_venv :: venv where
  "example_venv =
     \<lparr>strptime_ymd = (\<lambda>s.
        case (digits_val (take 4 s), digits_val (take 2 (drop 5 s)), digits_val (drop 8 s)) of
          (Some y, Some m, Some d) \<Rightarrow>
            if length s = 10 \<and> s ! 4 = CHR ''/'' \<and> s ! 7 = CHR ''/'' \<and> 1 \<le> y \<and> 1 \<le> m \<and> m \<le> 12 \<and>
               1 \<le> d \<and> d \<le> days_in_month y m
            then Some (ymd2ord (y, m, d)) else None
        | _ \<Rightarrow> None),
      strptime_yj = (\<lambda>s.
        case (digits_val (take 4 s), digits_val (drop 4 s)) of
          (Some y, Some j) \<Rightarrow>
            if length s = 7 \<and> 1 \<le> y \<and> 1 \<le> j \<and> j \<le> 366
            then Some (days_before_year y + j) else None
        | _ \<Rightarrow> None)\<rparr>"

definition wrs2_feature :: "(real \<times> real) list cfeature" where
  "wrs2_feature =
     \<lparr>FID = 7, sceneID_field = None, SensorID = None, dateUpdated = None,
      envelope = Some (-8.1, -5.2, 53.0, 54.9),
      geometry = [(-8.1, 54.9), (-5.2, 54.9), (-5.2, 53.0), (-8.1, 53.0), (-8.1, 54.9)]\<rparr>"

definition good_feature :: "(real \<times> real) list cfeature" where
  "good_feature =
     \<lparr>FID = 1, sceneID_field = Some ''LC82060232013100LGN00'', SensorID = Some ''OLI_TIRS'',
      dateUpdated = Some ''2019/08/14'', envelope = Some (-8.1, -5.2, 53.0, 54.9),
      geometry = [(-8.1, 54.9), (-5.2, 54.9), (-5.2, 53.0), (-8.1, 53.0), (-8.1, 54.9)]\<rparr>"

definition blank_feature :: "(real \<times> real) list cfeature" where
  "blank_feature =
     \<lparr>FID = 2, sceneID_field = Some ''LC82060232013116LGN00'', SensorID = None,
      dateUpdated = None, envelope = Some (0, 0, 0, 0), geometry = []\<rparr>"


definition example_catalog :: "(real \<times> real) list catalog" where
  "example_catalog = \<lparr>cfeatures = [good_feature, blank_feature], cursor = 0\<rparr>"


section \<open>Properties of the search windows\<close>

lemma window_loop_bounds:
  "(s, e) \<in> set (fst (window_loop d en)) \<Longrightarrow> d \<le> s \<and> s < en \<and> e \<le> en"
proof (induction d en arbitrary: s e rule: window_loop.induct)
  case (1 datetuple enddatetuple)
  show ?case
  proof (cases "datetuple < enddatetuple")
    case False
    with "1.prems" show ?thesis by simp
  next
    case lt: True
    show ?thesis
    proof (cases "datetuple + 365 > MAXORDINAL")
      case True
      with lt "1.prems" show ?thesis by simp
    next
      case noov: False
      define ed where "ed = (if datetuple + 365 > enddatetuple then enddatetuple else datetuple + 365)"
      have ed_le: "ed \<le> enddatetuple" and ed_gt: "datetuple < ed"
        using lt by (auto simp: ed_def)
      show ?thesis
      proof (cases "ed + 1 > MAXORDINAL")
        case True
        with lt noov "1.prems" ed_le have "(s, e) = (datetuple, ed)"
          by (simp add: Let_def ed_def split: if_splits)
        with ed_le lt show ?thesis by simp
      next
        case noov2: False
        obtain ws r where rec: "window_loop (ed + 1) enddatetuple = (ws, r)"
          by (cases "window_loop (ed + 1) enddatetuple")
        have unfold: "fst (window_loop datetuple enddatetuple) = (datetuple, ed) # ws"
          using lt noov noov2 rec by (simp add: Let_def ed_def split: if_splits)
        from "1.prems" unfold have "(s, e) = (datetuple, ed) \<or> (s, e) \<in> set ws" by simp
        then show ?thesis
        proof
          assume "(s, e) = (datetuple, ed)"
          with ed_le lt show ?thesis by simp
        next
          assume mem: "(s, e) \<in> set ws"
          have "(s, e) \<in> set (fst (window_loop (ed + 1) enddatetuple))"
            using mem rec by simp
          from "1.IH"[OF lt noov refl _ _ this] noov2
          have "ed + 1 \<le> s \<and> s < enddatetuple \<and> e \<le> enddatetuple"
            by (simp add: ed_def split: if_splits)
          with ed_gt show ?thesis by simp
        qed
      qed
    qed
  qed
qed

lemma dataset_windows_bounds:
  assumes "(s, e) \<in> set (fst (dataset_windows startdate enddate lm um bg ds))"
  shows "ymd2ord (datasetNames ds) \<le> s"
    and "ds = LANDSAT_TM_C1 \<Longrightarrow> e \<le> ymd2ord (2013, 6, 5)"
proof -
  from assms obtain d en where
    mem: "(s, e) \<in> set (fst (window_loop d en))"
    and d: "ymd2ord (datasetNames ds) \<le> d"
    and en: "ds = LANDSAT_TM_C1 \<longrightarrow> en \<le> ymd2ord (2013, 6, 5)"
    unfolding dataset_windows_def Let_def
    by (auto split: option.splits if_splits)
  from window_loop_bounds[OF mem] have b: "d \<le> s" "e \<le> en" by simp_all
  from b d show "ymd2ord (datasetNames ds) \<le> s" by simp
  from b en show "ds = LANDSAT_TM_C1 \<Longrightarrow> e \<le> ymd2ord (2013, 6, 5)" by simp
qed

lemma scenesearch_windows_member:
  "(ds, s, e) \<in> set (fst (scenesearch_windows startdate enddate lm um bg dss)) \<Longrightarrow>
     (s, e) \<in> set (fst (dataset_windows startdate enddate lm um bg ds))"
proof (induction dss)
  case Nil
  then show ?case by simp
next
  case (Cons d rest)
  obtain ws r where dw: "dataset_windows startdate enddate lm um bg d = (ws, r)"
    by (cases "dataset_windows startdate enddate lm um bg d")
  obtain ws' r' where sw: "scenesearch_windows startdate enddate lm um bg rest = (ws', r')"
    by (cases "scenesearch_windows startdate enddate lm um bg rest")
  from Cons.prems dw sw have "(ds, s, e) \<in> Pair d ` set ws \<or> (ds, s, e) \<in> set ws'"
    by (cases r) auto
  then show ?case
  proof
    assume "(ds, s, e) \<in> Pair d ` set ws"
    then have "ds = d" "(s, e) \<in> set ws" by auto
    with dw show ?thesis by simp
  next
    assume "(ds, s, e) \<in> set ws'"
    with sw Cons.IH show ?thesis by simp
  qed
qed

text \<open>
  C10. Every search window that scenesearch issues starts on or after the launch date of its
  collection (2013-02-11 for LANDSAT_8_C1, 1999-04-15 for LANDSAT_ETM_C1, 1982-07-16 for
  LANDSAT_TM_C1), and every window of LANDSAT_TM_C1 ends on or before 2013-06-05. This
  holds for the windows issued before an exception ends the search as well.
\<close>

theorem scenesearch_windows_bounded:
  assumes "(ds, s, e) \<in>
             set (fst (scenesearch_windows startdate enddate lastmod um
                         bg datasetNames_keys))"
  shows "(ds = LANDSAT_8_C1 \<longrightarrow> ymd2ord (2013, 2, 11) \<le> s) \<and>
         (ds = LANDSAT_ETM_C1 \<longrightarrow> ymd2ord (1999, 4, 15) \<le> s) \<and>
         (ds = LANDSAT_TM_C1 \<longrightarrow> ymd2ord (1982, 7, 16) \<le> s \<and> e \<le> ymd2ord (2013, 6, 5))"
proof -
  have mem: "(s, e) \<in> set (fst (dataset_windows startdate enddate lastmod
                                   um bg ds))"
    using assms by (rule scenesearch_windows_member)
  have start: "ymd2ord (datasetNames ds) \<le> s"
    using mem by (rule dataset_windows_bounds(1))
  have stop: "ds = LANDSAT_TM_C1 \<Longrightarrow> e \<le> ymd2ord (2013, 6, 5)"
    using mem by (rule dataset_windows_bounds(2))
  show ?thesis using start stop by (cases ds) simp_all
qed

theorem scenesearch_windows_bounded_witness:
  "(LANDSAT_TM_C1, 735008, 735024) \<in>
     set (fst (scenesearch_windows (ymd2ord (2012, 1, 1)) (ymd2ord (2014, 3, 1))
                 (Some (ymd2ord (2013, 5, 20))) ([] :: string list) [] datasetNames_keys)) \<and>
   ymd2ord (1982, 7, 16) \<le> 735008 \<and> 735024 \<le> ymd2ord (2013, 6, 5)"
proof -
  have mem: "(LANDSAT_TM_C1, 735008, 735024) \<in>
     set (fst (scenesearch_windows (ymd2ord (2012, 1, 1)) (ymd2ord (2014, 3, 1))
                 (Some (ymd2ord (2013, 5, 20))) ([] :: string list) [] datasetNames_keys))"
    by code_simp
  from scenesearch_windows_bounded[OF mem] mem show ?thesis by simp
qed

section \<open>Properties of the metadata requests\<close>

lemma py_slice_block:
  assumes "int (length xs) \<ge> int i * 100"
  shows "py_slice xs (int i * 100) (int i * 100 + 99) = take 99 (drop (100 * i) xs)"
proof (cases "int i * 100 + 99 \<le> int (length xs)")
  case True
  then have "min (int i * 100 + 99) (int (length xs)) - int i * 100 = 99" by simp
  moreover have "nat (int i * 100) = 100 * i" by simp
  ultimately show ?thesis using assms by (simp add: py_slice_def Let_def min_def)
next
  case False
  then have short: "length (drop (100 * i) xs) \<le> 99" by simp
  have n: "nat (int i * 100) = 100 * i" by simp
  have "nat (int (length xs) - int i * 100) = length xs - 100 * i" by simp
  then have "py_slice xs (int i * 100) (int i * 100 + 99) = take (length xs - 100 * i) (drop (100 * i) xs)"
    using assms False n by (simp add: py_slice_def Let_def min_def)
  also have "\<dots> = drop (100 * i) xs" by simp
  also have "\<dots> = take 99 (drop (100 * i) xs)" using short by simp
  finally show ?thesis .
qed

text \<open>
  Every request carries the 99 scene identifiers that follow a multiple of 100 in the query
  list: the branch that would shorten the last block is never taken, and the slice leaves
  its upper bound out.
\<close>

lemma metadata_requests_blocks:
  "metadata_requests ql =
     map (\<lambda>i. take 99 (drop (100 * i) ql)) [0 ..< (length ql + 99) div 100]"
proof (cases "ql = []")
  case True
  then show ?thesis by (simp add: metadata_requests_def)
next
  case False
  have "query_block ql i = take 99 (drop (100 * i) ql)"
    if "i < (length ql + 99) div 100" for i
  proof -
    from that have le: "int (length ql) \<ge> int i * 100" by linarith
    then have "block_bounds (length ql) i = (int i * 100, int i * 100 + 99)"
      by (simp add: block_bounds_def Let_def)
    then show ?thesis using py_slice_block[OF le] by (simp add: query_block_def)
  qed
  then show ?thesis using False
    by (simp add: metadata_requests_def iterations_of_def)
qed

text \<open>
  C1. A search that returns a hundred scenes of a configured path and row, none of them in
  the local scene list, puts all hundred into the query list; scenesearch then sends one
  metadata request, for the first 99 of them, and the hundredth scene is in no request.
\<close>

theorem metadata_requests_miss_hundredth:
  "build_querylist [''206023''] [] [] [] example_results = example_results \<and>
   length example_results = 100 \<and>
   metadata_requests example_results = [take 99 example_results] \<and>
   ''LC82060232013199LGN00'' \<in> set example_results \<and>
   ''LC82060232013199LGN00'' \<notin> set (concat (metadata_requests example_results))"
proof -
  have a: "build_querylist [''206023''] [] [] [] example_results = example_results"
    by code_simp
  have b: "length example_results = 100"
    by (simp add: example_results_def)
  have c: "metadata_requests example_results = [take 99 example_results]"
    by code_simp
  have d: "''LC82060232013199LGN00'' \<in> set example_results"
    by code_simp
  have e: "''LC82060232013199LGN00'' \<notin> set (concat (metadata_requests example_results))"
    by code_simp
  from a b c d e show ?thesis by simp
qed

section \<open>Properties of the download loops\<close>

text \<open>
  In dlxmls every failed attempt adds one to \<open>tries\<close>, so an item sees at most five attempts,
  and after the fifth failure the download error is logged.
\<close>

lemma dlxmls_loop_attempts:
  "dlxmls_loop env s = Inr s' \<Longrightarrow>
     attempts s' + tries s \<le> attempts s + (if downloaded s then tries s else max (tries s) 6) \<and>
     (tries s \<le> 6 \<longrightarrow> tries s' \<le> 6)"
proof (induction env s rule: dlxmls_loop.induct)
  case (1 env s)
  show ?case
  proof (cases "\<not> downloaded s \<and> tries s < 6")
    case False
    with "1.prems" have "s' = s" by (simp add: dlxmls_loop.simps[of env s])
    with False show ?thesis by auto
  next
    case True
    with "1.prems" have
      "(case dlxmls_attempt (env (attempts s)) s of Inl e \<Rightarrow> Inl e
        | Inr s1 \<Rightarrow> dlxmls_loop env s1) = Inr s'"
      by (simp add: dlxmls_loop.simps[of env s])
    then obtain s1 where a: "dlxmls_attempt (env (attempts s)) s = Inr s1"
      and r: "dlxmls_loop env s1 = Inr s'"
      by (cases "dlxmls_attempt (env (attempts s)) s") simp_all
    from "1.IH"[OF True a r]
    have ih: "attempts s' + tries s1 \<le> attempts s1 + (if downloaded s1 then tries s1 else max (tries s1) 6)"
      and ih2: "tries s1 \<le> 6 \<longrightarrow> tries s' \<le> 6"
      by simp_all
    from a have
      "(downloaded s1 \<and> tries s1 = tries s \<and> attempts s1 = attempts s + 1) \<or>
       (\<not> downloaded s1 \<and> tries s1 = tries s + 1 \<and> attempts s1 = attempts s + 1)"
      using True by (cases "env (attempts s)") (auto simp: dlxmls_attempt_def Let_def)
    with ih ih2 True show ?thesis by (auto simp: max_def split: if_splits)
  qed
qed

lemma dlxmls_item_bounded:
  assumes "dlxmls_item env ef = Inr s"
  shows "attempts s \<le> 5"
proof -
  from assms obtain s0 where l: "dlxmls_loop env (dl_init ef) = Inr s0"
    and a: "attempts s = attempts s0"
    by (auto simp: dlxmls_item_def split: sum.splits if_splits)
  from dlxmls_loop_attempts[OF l] a show ?thesis by (simp add: dl_init_def)
qed

text \<open>
  In dlthumb a URLError leaves \<open>tries\<close> as it is. While every attempt raises URLError the
  loop condition stays true, and the loop does not end.
\<close>

lemma dlthumb_loop_URLError_diverges:
  assumes run: "dlthumb_loop env s = Some r"
  shows "\<not> (env = (\<lambda>_. Raises_URLError) \<and> \<not> downloaded s \<and> tries s < 6)"
proof -
  let ?Q = "\<lambda>(env :: nat \<Rightarrow> attempt) (s :: dl) (r :: pyerror + dl).
              \<not> (env = (\<lambda>_. Raises_URLError) \<and> \<not> downloaded s \<and> tries s < 6)"
  have step: "?Q env s r"
    if IH: "\<And>env s r. loop env s = Some r \<Longrightarrow> ?Q env s r"
      and unfolded: "(if \<not> downloaded s \<and> tries s < 6 then
              (case dlthumb_attempt (env (attempts s)) s of
                 Inl e \<Rightarrow> Some (Inl e)
               | Inr s' \<Rightarrow> loop env s')
            else Some (Inr s)) = Some r"
    for loop env s r
  proof
    assume c: "env = (\<lambda>_. Raises_URLError) \<and> \<not> downloaded s \<and> tries s < 6"
    define s' where
      "s' = s\<lparr>attempts := attempts s + 1, logged := logged s @ [''e.reason''], errorsfound := True\<rparr>"
    have "dlthumb_attempt (env (attempts s)) s = Inr s'"
      using c by (simp add: dlthumb_attempt_def Let_def s'_def)
    with unfolded c have "loop env s' = Some r" by simp
    from IH[OF this] c show False by (simp add: s'_def)
  qed
  show ?thesis
    by (rule dlthumb_loop.raw_induct[where P = ?Q, OF step run])
qed

text \<open>
  C3. The loop of dlthumb does not stop after five attempts when the attempts raise
  URLError: with a server that always raises URLError dlthumb never returns, and with ten
  URLErrors followed by a complete download it returns 'Success!' after eleven attempts,
  with \<open>tries\<close> still 1 and no download failure logged.
\<close>

theorem dlthumb_URLError_not_bounded:
  "dlthumb (\<lambda>_. Raises_URLError) False = None \<and>
   map_option (map_sum id (\<lambda>(r, s). (r, attempts s, tries s, ''Download error.'' \<in> set (logged s))))
     (dlthumb (\<lambda>k. if k < 10 then Raises_URLError else Complete) False)
   = Some (Inr (Some ''Success!'', 11, 1, False))"
proof -
  have "dlthumb_loop (\<lambda>_. Raises_URLError) (dl_init False) = None"
  proof (cases "dlthumb_loop (\<lambda>_. Raises_URLError) (dl_init False)")
    case None
    then show ?thesis .
  next
    case (Some r)
    from dlthumb_loop_URLError_diverges[OF Some] show ?thesis by (simp add: dl_init_def)
  qed
  then have a: "dlthumb (\<lambda>_. Raises_URLError) False = None"
    by (simp add: dlthumb_def)
  have b: "map_option (map_sum id (\<lambda>(r, s). (r, attempts s, tries s, ''Download error.'' \<in> set (logged s))))
     (dlthumb (\<lambda>k. if k < 10 then Raises_URLError else Complete) False)
   = Some (Inr (Some ''Success!'', 11, 1, False))"
    by (simp add: dlthumb_def dl_init_def dlthumb_loop.simps dlthumb_attempt_def)
  from a b show ?thesis by simp
qed

section \<open>Properties of the ring construction\<close>



text \<open>
  C9. The ring built from a footprint whose last coordinate differs from the first in
  longitude and latitude is not closed, and for a footprint whose last coordinate differs
  from the first in longitude only the construction raises TypeError.
\<close>

theorem build_ring_open_or_raises:
  "build_ring None [[-7.2, 54.6], [-4.4, 54.2], [-5.0, 52.5], [-7.7, 52.9]]
     = Inr [(-7.2, 54.6), (-4.4, 54.2), (-5.0, 52.5), (-7.7, 52.9)] \<and>
   \<not> ring_closed [(-7.2, 54.6), (-4.4, 54.2), (-5.0, 52.5), (-7.7, 52.9)] \<and>
   build_ring None [[-7.2, 54.6], [-4.4, 54.2], [-5.0, 54.6]] = Inl TypeError"
  by (simp add: build_ring_def ebind_def item_def ring_closed_def)

section \<open>Properties of the conversion loop\<close>

text \<open>
  Unless a call raises something that \<open>except Exception\<close> does not catch, the file loop
  calls \<open>ieo.converttotiles\<close> for every file, in order, with the same output directory,
  raster type and \<open>pixelqa\<close>, and logs exactly the files whose call raised.
\<close>

lemma convert_files_all:
  assumes "\<forall>k c e. conv k c \<noteq> Raises_uncaught e"
  shows "\<exists>st'. convert_files conv outd rt pq flist st = Inr st' \<and>
           calls st' = calls st @ map (\<lambda>f. (f, outd, rt, pq)) flist \<and>
           errorlog st' =
             errorlog st @ failures conv outd rt pq (enumerate (length (calls st)) flist)"
proof (induction flist arbitrary: st)
  case Nil
  show ?case by (simp add: failures_def)
next
  case (Cons f flist)
  let ?c = "(f, outd, rt, pq)"
  show ?case
  proof (cases "conv (length (calls st)) ?c")
    case Returns
    from Cons.IH[of "st\<lparr>calls := calls st @ [?c]\<rparr>"] Returns
    show ?thesis by (auto simp: failures_def)
  next
    case (Raises e)
    from Cons.IH[of "st\<lparr>calls := calls st @ [?c], errorlog := errorlog st @ [(f, e)]\<rparr>"]
      Raises
    show ?thesis by (auto simp: failures_def)
  next
    case (Raises_uncaught e)
    with assms show ?thesis by simp
  qed
qed





lemma convert_outdir_mkdir_fails:
  assumes "outdir args = Some od" and "od \<noteq> []" and "\<not> isdir fs od" and "\<not> mkdir fs od"
  shows "convertlibrarytotiles args fs glob conv = Inl (OSError od)"
  using assms by (simp add: convertlibrarytotiles_def ensure_dir_def)






section \<open>Properties of the handling of errors per item\<close>

lemma convert_value_no_log:
  "logged_events (fst (convert_value bi typ fieldname v entry)) = []"
  by (simp add: convert_value_def split: option.splits)

lemma populate_field_no_log:
  "logged_events (fst (populate_field bi subitem entry)) = []"
proof -
  have "logged_events (fst (case convert_value bi t fieldname v entry of
            (evs, Inl e) \<Rightarrow> (evs, Inl e)
          | (evs, Inr (val, entry')) \<Rightarrow> (evs, Inr (entry'(fieldname \<mapsto> val))))) = []"
    for t fieldname v
    using convert_value_no_log[of bi t fieldname v entry]
    by (cases "convert_value bi t fieldname v entry") (auto split: sum.splits)
  then show ?thesis
    by (simp add: populate_field_def Let_def split: option.splits)
qed

lemma logged_events_append:
  "logged_events (xs @ ys) = logged_events xs @ logged_events ys"
  by (induction xs rule: logged_events.induct) simp_all

lemma populate_fields_no_log:
  "logged_events (fst (populate_fields bi subitems entry)) = []"
proof (induction subitems arbitrary: entry)
  case Nil
  show ?case by simp
next
  case (Cons subitem subitems)
  obtain evs r where one: "populate_field bi subitem entry = (evs, r)"
    by (cases "populate_field bi subitem entry")
  from populate_field_no_log[of bi subitem entry] one have nolog: "logged_events evs = []"
    by simp
  show ?case
  proof (cases r)
    case (Inl e)
    with one nolog show ?thesis by simp
  next
    case (Inr entry')
    obtain evs' r' where rest: "populate_fields bi subitems entry' = (evs', r')"
      by (cases "populate_fields bi subitems entry'")
    from Cons.IH[of entry'] rest have "logged_events evs' = []" by simp
    with one Inr rest nolog show ?thesis by (simp add: logged_events_append)
  qed
qed

text \<open>
  An integer field that the loop populates and whose value \<open>int\<close> cannot convert: the body
  of the loop prints the message and raises SystemExit.
\<close>

lemma populate_field_integer_exit:
  assumes name: "fieldname = replace (strip (fst subitem)) ''L-1'' ''L1''"
    and populated: "fieldname \<in> set queryfieldnames" "entry fieldname = None"
      "fieldname \<noteq> ''Landsat Scene Identifier''"
    and val: "snd subitem = Some v" "v \<noteq> []"
    and ftype: "field_type (index_of queryfieldnames fieldname) = OFTInteger"
    and nodate: "\<not> endswith fieldname ''Date''"
    and bad: "py_int bi v = None"
  shows "populate_field bi subitem entry =
           ([Printed (''Error: fieldname '' @ fieldname @ '' has a value of '' @ v @ ''.'')],
            Inl SystemExit)"
proof -
  have cv: "convert_value bi OFTInteger fieldname v entry =
           ([Printed (''Error: fieldname '' @ fieldname @ '' has a value of '' @ v @ ''.'')],
            Inl SystemExit)"
    using nodate bad by (simp add: convert_value_def)
  show ?thesis
    unfolding populate_field_def Let_def name[symmetric]
    using populated val ftype cv by simp
qed

lemma populate_fields_stops:
  assumes "populate_fields bi pre entry = (evs, Inr entry1)"
    and "populate_field bi subitem entry1 = (evs1, Inl e)"
  shows "populate_fields bi (pre @ subitem # post) entry = (evs @ evs1, Inl e)"
  using assms
proof (induction pre arbitrary: entry evs)
  case Nil
  then show ?case by simp
next
  case (Cons x pre)
  obtain ex rx where one: "populate_field bi x entry = (ex, rx)"
    by (cases "populate_field bi x entry")
  show ?case
  proof (cases rx)
    case (Inl err)
    with one Cons.prems(1) show ?thesis by simp
  next
    case (Inr entry')
    obtain evs' r' where rest: "populate_fields bi pre entry' = (evs', r')"
      by (cases "populate_fields bi pre entry'")
    from one Inr rest Cons.prems(1) have r': "r' = Inr entry1" and evs: "evs = ex @ evs'"
      by simp_all
    from Cons.IH[OF rest[unfolded r'] Cons.prems(2)]
    have "populate_fields bi (pre @ subitem # post) entry' = (evs' @ evs1, Inl e)" .
    with one Inr evs show ?thesis by simp
  qed
qed

text \<open>
  C4, as the specification states it, fails in scenesearch: the value \<open>abc\<close> of the
  integer field \<open>WRS Path\<close> ends the run with SystemExit after a printed message; the field
  \<open>WRS Row\<close> after it is not populated, and nothing is logged.
\<close>

theorem populate_fields_bad_integer_exits:
  "map_prod id (map_sum id (\<lambda>entry. entry ''WRS Row''))
     (populate_fields example_builtins
        [(''WRS Path'', Some ''abc''), (''WRS Row'', Some ''23'')] example_entry)
   = ([Printed ''Error: fieldname WRS Path has a value of abc.''], Inl SystemExit)"
  by code_simp

text \<open>
  C4, amended. In convertlibrarytotiles.py, in a file loop in which no call raises an
  exception that \<open>except Exception\<close> lets through, every file of the list is passed to
  \<open>ieo.converttotiles\<close>, and each exception raised is logged with its file through
  \<open>ieo.logerror\<close>, the loop going on with the next file. In scenesearch, when the loop over
  the metadata fields of a scene reaches a field that it populates (its name is in
  \<open>queryfieldnames\<close>, not yet in the entry of the scene, and not the scene identifier), whose
  type in \<open>fieldvaluelist\<close> is integer, whose name does not end in \<open>Date\<close> and whose non-empty
  value \<open>int\<close> cannot convert, the loop prints an error message and ends the run with
  \<open>sys.exit()\<close>: the fields after it are not processed. The loop over the metadata fields
  never calls \<open>ieo.logerror\<close>.
\<close>

theorem item_errors_logged_or_exit:
  "((\<forall>k c e. conv k c \<noteq> Raises_uncaught e) \<longrightarrow>
      (\<exists>st'. convert_files conv outd rt pq flist st = Inr st' \<and>
         calls st' = calls st @ map (\<lambda>f. (f, outd, rt, pq)) flist \<and>
         errorlog st' =
           errorlog st @ failures conv outd rt pq (enumerate (length (calls st)) flist))) \<and>
   (fieldname = replace (strip (fst subitem)) ''L-1'' ''L1'' \<and>
    fieldname \<in> set queryfieldnames \<and> reached fieldname = None \<and>
    fieldname \<noteq> ''Landsat Scene Identifier'' \<and>
    snd subitem = Some v \<and> v \<noteq> [] \<and>
    field_type (index_of queryfieldnames fieldname) = OFTInteger \<and>
    \<not> endswith fieldname ''Date'' \<and> py_int bi v = None \<and>
    populate_fields bi pre entry = (evs, Inr reached) \<longrightarrow>
      populate_fields bi (pre @ subitem # post) entry =
        (evs @ [Printed (''Error: fieldname '' @ fieldname @ '' has a value of '' @ v @ ''.'')],
         Inl SystemExit)) \<and>
   logged_events (fst (populate_fields bi subitems entry)) = []"
proof -
  have files: "\<exists>st'. convert_files conv outd rt pq flist st = Inr st' \<and>
            calls st' = calls st @ map (\<lambda>f. (f, outd, rt, pq)) flist \<and>
            errorlog st' =
              errorlog st @ failures conv outd rt pq (enumerate (length (calls st)) flist)"
    if "\<forall>k c e. conv k c \<noteq> Raises_uncaught e"
    using that by (rule convert_files_all)
  have exit: "populate_fields bi (pre @ subitem # post) entry =
        (evs @ [Printed (''Error: fieldname '' @ fieldname @ '' has a value of '' @ v @ ''.'')],
         Inl SystemExit)"
    if h: "fieldname = replace (strip (fst subitem)) ''L-1'' ''L1'' \<and>
      fieldname \<in> set queryfieldnames \<and> reached fieldname = None \<and>
      fieldname \<noteq> ''Landsat Scene Identifier'' \<and>
      snd subitem = Some v \<and> v \<noteq> [] \<and>
      field_type (index_of queryfieldnames fieldname) = OFTInteger \<and>
      \<not> endswith fieldname ''Date'' \<and> py_int bi v = None \<and>
      populate_fields bi pre entry = (evs, Inr reached)"
  proof -
    from h have one: "populate_field bi subitem reached =
           ([Printed (''Error: fieldname '' @ fieldname @ '' has a value of '' @ v @ ''.'')],
            Inl SystemExit)"
      using populate_field_integer_exit[where fieldname = fieldname and subitem = subitem
          and entry = reached and v = v and bi = bi]
      by blast
    from h have pre: "populate_fields bi pre entry = (evs, Inr reached)" by simp
    from pre one show ?thesis by (rule populate_fields_stops)
  qed
  have nolog: "logged_events (fst (populate_fields bi subitems entry)) = []"
    by (rule populate_fields_no_log)
  from files exit nolog show ?thesis by blast
qed

theorem item_errors_logged_or_exit_witness:
  "(\<exists>st'. convert_files (\<lambda>k c. if k = 0 then Raises ''no header'' else Returns)
             ''/lib/out'' ''ref'' True [''/lib/out/L1.dat'', ''/lib/out/L2.dat'']
             \<lparr>calls = [], errorlog = [], made = []\<rparr> = Inr st' \<and>
          calls st' = [(''/lib/out/L1.dat'', ''/lib/out'', ''ref'', True),
                       (''/lib/out/L2.dat'', ''/lib/out'', ''ref'', True)] \<and>
          errorlog st' = [(''/lib/out/L1.dat'', ''no header'')]) \<and>
   populate_fields example_builtins [(''WRS Row'', Some ''23'')] example_entry
     = ([], Inr (example_entry(''WRS Row'' \<mapsto> VInt 23))) \<and>
   field_type (index_of queryfieldnames ''WRS Path'') = OFTInteger \<and>
   py_int example_builtins ''abc'' = None \<and>
   populate_fields example_builtins
     [(''WRS Row'', Some ''23''), (''WRS Path'', Some ''abc''), (''UTM Zone'', Some ''29'')]
     example_entry
     = ([Printed ''Error: fieldname WRS Path has a value of abc.''], Inl SystemExit) \<and>
   logged_events (fst (populate_fields example_builtins
     [(''WRS Row'', Some ''23''), (''WRS Path'', Some ''abc''), (''UTM Zone'', Some ''29'')]
     example_entry)) = []"
proof -
  have h1: "\<forall>k c e. (if k = (0::nat) then Raises ''no header'' else Returns) \<noteq> Raises_uncaught e"
    by simp
  have name: "''WRS Path'' = replace (strip (fst (''WRS Path'', Some ''abc''))) ''L-1'' ''L1''"
    by code_simp
  have inq: "''WRS Path'' \<in> set queryfieldnames"
    by code_simp
  have ftype: "field_type (index_of queryfieldnames ''WRS Path'') = OFTInteger"
    by code_simp
  have nodate: "\<not> endswith ''WRS Path'' ''Date''"
    by (simp add: endswith_def)
  have bad: "py_int example_builtins ''abc'' = None"
    by code_simp
  have row: "replace (strip ''WRS Row'') ''L-1'' ''L1'' = ''WRS Row''"
    by code_simp
  have rowq: "''WRS Row'' \<in> set queryfieldnames"
    by code_simp
  have rowt: "field_type (index_of queryfieldnames ''WRS Row'') = OFTInteger"
    by code_simp
  have rowv: "py_int example_builtins ''23'' = Some 23"
    by code_simp
  have pre: "populate_fields example_builtins [(''WRS Row'', Some ''23'')] example_entry
     = ([], Inr (example_entry(''WRS Row'' \<mapsto> VInt 23)))"
    using row rowq rowt rowv
    by (simp add: populate_field_def Let_def convert_value_def endswith_def example_entry_def
        initial_entry_def)
  have free: "(example_entry(''WRS Row'' \<mapsto> VInt 23)) ''WRS Path'' = None"
    by (simp add: example_entry_def initial_entry_def)
  from h1 name inq ftype nodate bad pre free
    item_errors_logged_or_exit[where conv = "\<lambda>k c. if k = 0 then Raises ''no header'' else Returns"
      and outd = "''/lib/out''" and rt = "''ref''"
      and pq = True and flist = "[''/lib/out/L1.dat'', ''/lib/out/L2.dat'']"
      and st = "\<lparr>calls = [], errorlog = [], made = []\<rparr>"
      and fieldname = "''WRS Path''" and v = "''abc''" and bi = example_builtins
      and subitem = "(''WRS Path'', Some ''abc'')" and pre = "[(''WRS Row'', Some ''23'')]"
      and entry = example_entry and evs = "[]"
      and reached = "example_entry(''WRS Row'' \<mapsto> VInt 23)"
      and post = "[(''UTM Zone'', Some ''29'')]"
      and subitems = "[(''WRS Row'', Some ''23''), (''WRS Path'', Some ''abc''),
                       (''UTM Zone'', Some ''29'')]"]
  show ?thesis
    by (simp add: failures_def enumerate_eq_zip upt_rec)
qed

section \<open>Properties of migrate\<close>

text \<open>
  C8. Every call of migrate raises UnboundLocalError for \<open>verbose\<close>, whatever the keyword
  arguments, the module's names, the layer and the shapefile are; no feature is migrated.
\<close>

theorem migrate_raises_UnboundLocalError:
  "migrate env globals layer shp fvl kwargs = Inl (UnboundLocalError ''verbose'')"
  by (simp add: migrate_def load_local_def ebind_def Let_def)

text \<open>
  C2. With migration requested and the shapefile present, the call of migrate for a
  shapefile whose one feature passes the geometry check ends in UnboundLocalError, and the
  geopackage layer receives no feature. The statements after the failing one, run with
  \<open>tiledir\<close> and \<open>verbose\<close> bound, would not copy the feature into a new layer either, since
  they copy a feature only when its \<open>sceneID\<close> is already in the layer.
\<close>

theorem migrate_call_copies_nothing:
  "\<not> checkscenegeometry example_menv example_shpfeature (KBool False) \<and>
   migrate_call example_menv Map.empty True True ''/lib'' False new_layer example_shplayer
     = Inl (UnboundLocalError ''verbose'') \<and>
   migrate_body example_menv new_layer example_shplayer fieldvaluelist (KStr ''/lib'') (KBool False)
     = Inr new_layer"
  by (simp add: migrate_call_def migrate_def load_local_def ebind_def Let_def
      migrate_body_def migrate_feature_def new_layer_def example_shplayer_def example_menv_def)

section \<open>Properties of the validation pass\<close>

text \<open>
  C5. The pass does not examine the first feature of the layer. With \<open>useWRS2\<close> other than
  \<open>yes\<close> the name \<open>feature\<close> is unbound when the loop tests it, and the pass ends in
  NameError. With \<open>useWRS2 = yes\<close> the loop starts with the last feature of the WRS-2
  layer and continues with the second feature of the catalog: the \<open>sceneID\<close> of the first
  catalog feature is never appended to the scene list.
\<close>

theorem validation_pass_skips_first_feature:
  "cfeatures example_catalog = [good_feature, blank_feature] \<and>
   sceneID_field good_feature = Some ''LC82060232013100LGN00'' \<and>
   validation_pass example_venv False (feature_before_pass False [wrs2_feature])
     example_catalog vstate_init = Inl (NameError ''feature'') \<and>
   map_sum id (\<lambda>st. (scenelist st, DeleteFeature st))
     (validation_pass example_venv False (feature_before_pass True [wrs2_feature])
        example_catalog vstate_init)
   = Inr ([''LC82060232013116LGN00''], [7, 2])"
proof -
  have a: "cfeatures example_catalog = [good_feature, blank_feature]"
    by (simp add: example_catalog_def)
  have b: "sceneID_field good_feature = Some ''LC82060232013100LGN00''"
    by (simp add: good_feature_def)
  have c: "validation_pass example_venv False (feature_before_pass False [wrs2_feature])
     example_catalog vstate_init = Inl (NameError ''feature'')"
    by (simp add: validation_pass_def feature_before_pass_def example_catalog_def
        GetNextFeature_def)
  have d: "map_sum id (\<lambda>st. (scenelist st, DeleteFeature st))
     (validation_pass example_venv False (feature_before_pass True [wrs2_feature])
        example_catalog vstate_init)
   = Inr ([''LC82060232013116LGN00''], [7, 2])"
    by code_simp
  from a b c d show ?thesis by simp
qed

section \<open>Properties of the geometry check and the geometry update\<close>









end
